theory Spec2Isabelle
  imports Main "HOL-Library.Word"
begin

unbundle bit_operations_syntax

section \<open>Errors\<close>

text \<open>
  Go errors are values.  Three shapes occur in the program: the \<^verbatim>\<open>*os.PathError\<close> of a
  failed file-system call (operation, path, cause), an error that only carries a message
  (\<^verbatim>\<open>errors.New\<close>, \<^verbatim>\<open>errors.Errorf\<close>, \<^verbatim>\<open>fmt.Errorf\<close> with \<^verbatim>\<open>%v\<close>, and whatever a
  library hands back), and \<^verbatim>\<open>errors.Wrap(err, label)\<close>, which keeps the cause and puts a
  label in front of it.
\<close>

datatype errno = ENOENT | ENOTDIR | EISDIR | EACCES | ENOSPC | EIO

type_synonym path = "string list"

datatype error =
    PathError string path errno
  | ErrorString string
  | Wrap error string

fun errno_string :: "errno \<Rightarrow> string" where
  "errno_string ENOENT = ''no such file or directory''"
| "errno_string ENOTDIR = ''not a directory''"
| "errno_string EISDIR = ''is a directory''"
| "errno_string EACCES = ''permission denied''"
| "errno_string ENOSPC = ''no space left on device''"
| "errno_string EIO = ''input/output error''"

fun path_string :: "path \<Rightarrow> string" where
  "path_string [] = ''''"
| "path_string [c] = c"
| "path_string (c # cs) = c @ ''/'' @ path_string cs"

text \<open>The method \<^verbatim>\<open>Error()\<close>: the message an error prints, which \<^verbatim>\<open>%v\<close> formats.\<close>

fun Error :: "error \<Rightarrow> string" where
  "Error (PathError op p e) = op @ '' '' @ path_string p @ '': '' @ errno_string e"
| "Error (ErrorString s) = s"
| "Error (Wrap err label) = label @ '': '' @ Error err"

text \<open>The label of the outermost \<^verbatim>\<open>errors.Wrap\<close>, if the error is a wrapped one.\<close>

fun stage_label :: "error \<Rightarrow> string option" where
  "stage_label (Wrap err label) = Some label"
| "stage_label (PathError op p e) = None"
| "stage_label (ErrorString s) = None"

section \<open>The environment of package ssh: file tree, entropy, call log\<close>

text \<open>
  A path is the list of its components (the cleaned path, split at the separator) below a
  base directory that exists: the root for an absolute path, the working directory for a
  relative one.  \<^verbatim>\<open>filepath.Join(dir, name)\<close> adds one component.  The empty list is the
  empty path \<^verbatim>\<open>""\<close>: a name joined to it lies in the base directory, and the empty path
  itself names nothing.  A permission is an \<^verbatim>\<open>os.FileMode\<close>, a \<^verbatim>\<open>uint32\<close>.
\<close>

type_synonym perm = "32 word"

definition octal :: "nat \<Rightarrow> nat \<Rightarrow> nat \<Rightarrow> perm" where
  "octal a b c = of_nat (a * 64 + b * 8 + c)"

datatype node = Dir perm | File string perm

type_synonym tree = "path \<Rightarrow> node option"

definition filepath_Join :: "path \<Rightarrow> string \<Rightarrow> path" where
  "filepath_Join dir name = dir @ [name]"

text \<open>
  \<^verbatim>\<open>rsa.PrivateKey\<close> embeds its \<^verbatim>\<open>rsa.PublicKey\<close>; \<^verbatim>\<open>Public()\<close> returns the embedded
  field.  A \<^verbatim>\<open>pem.Block\<close> is built by the program without headers.
\<close>

record rsa_PublicKey =
  N :: int
  E :: int

record rsa_PrivateKey =
  PublicKey :: rsa_PublicKey
  D :: int
  Primes :: "int list"

definition Public :: "rsa_PrivateKey \<Rightarrow> rsa_PublicKey" where
  "Public cp = PublicKey cp"

record pem_Block =
  Type :: string
  Bytes :: string

text \<open>
  Every call the package makes to the operating system or to the random source is
  logged.  The environment decides, per call, whether it fails for a reason outside the
  tree (permissions, quota, a media error), and where: \<open>fault\<close>.  A call that handles a
  file has three stages, open, transfer and close, and can fail in each; \<open>Fails\<close> is a
  failure at the first step of a call, before anything has changed.  \<open>keygen n\<close> is what
  the \<open>n\<close>-th call of \<^verbatim>\<open>rsa.GenerateKey(rand.Reader, bits)\<close> returns.
\<close>

datatype call =
    MkdirAll path perm
  | Stat path
  | WriteFile path string perm
  | ReadFile path
  | GenerateKey nat

datatype failure =
    Fails errno
  | FailsMidway errno nat
  | FailsClosing errno

fun errno_of :: "failure \<Rightarrow> errno" where
  "errno_of (Fails e) = e"
| "errno_of (FailsMidway e n) = e"
| "errno_of (FailsClosing e) = e"

record world =
  fs :: tree
  umask :: perm
  fault :: "call \<Rightarrow> failure option"
  keygen :: "nat \<Rightarrow> error + rsa_PrivateKey"
  draws :: nat
  trace :: "call list"

text \<open>The base directory is a directory; below it, what the tree says.\<close>

definition is_dir :: "tree \<Rightarrow> path \<Rightarrow> bool" where
  "is_dir t p = (p = [] \<or> (case t p of Some (Dir _) \<Rightarrow> True | _ \<Rightarrow> False))"

text \<open>
  \<^verbatim>\<open>os.MkdirAll(path, perm)\<close> makes the directory and every missing ancestor, from the top
  down: a component that is a directory is kept as it is, a missing one is created with
  \<open>perm\<close> (before umask), and a regular file in the way stops the walk with \<^verbatim>\<open>ENOTDIR\<close>
  for the path of that file.  The empty path fails with \<^verbatim>\<open>ENOENT\<close>.  Where the environment
  makes the call fail midway (\<open>FailsMidway e n\<close>), the first \<open>n\<close> components are in place
  and making the next one fails with \<open>e\<close>, so that the error names that component and the
  directories made before it stay.
\<close>

fun mkdirs :: "perm \<Rightarrow> path \<Rightarrow> path \<Rightarrow> tree \<Rightarrow> path \<times> errno + tree" where
  "mkdirs m at [] t = Inr t"
| "mkdirs m at (c # cs) t =
     (case t (at @ [c]) of
        Some (Dir _) \<Rightarrow> mkdirs m (at @ [c]) cs t
      | Some (File _ _) \<Rightarrow> Inl (at @ [c], ENOTDIR)
      | None \<Rightarrow> mkdirs m (at @ [c]) cs (t((at @ [c]) \<mapsto> Dir m)))"

definition os_MkdirAll :: "path \<Rightarrow> perm \<Rightarrow> world \<Rightarrow> error option \<times> world" where
  "os_MkdirAll p m w =
     (let w' = w\<lparr>trace := trace w @ [MkdirAll p m]\<rparr>;
          mode = m AND NOT (umask w)
      in if p = [] then (Some (PathError ''mkdir'' p ENOENT), w')
         else
           (case fault w (MkdirAll p m) of
              None \<Rightarrow>
                (case mkdirs mode [] p (fs w) of
                   Inl (q, e) \<Rightarrow> (Some (PathError ''mkdir'' q e), w')
                 | Inr t \<Rightarrow> (None, w'\<lparr>fs := t\<rparr>))
            | Some (Fails e) \<Rightarrow> (Some (PathError ''mkdir'' p e), w')
            | Some (FailsClosing e) \<Rightarrow> (Some (PathError ''mkdir'' p e), w')
            | Some (FailsMidway e n) \<Rightarrow>
                (let k = min n (length p - 1) in
                 case mkdirs mode [] (take k p) (fs w) of
                   Inl (q, e') \<Rightarrow> (Some (PathError ''mkdir'' q e'), w')
                 | Inr t \<Rightarrow> (Some (PathError ''mkdir'' (take (Suc k) p) e), w'\<lparr>fs := t\<rparr>))))"

text \<open>
  \<^verbatim>\<open>os.Stat(name)\<close>: the node's description, or \<^verbatim>\<open>ENOENT\<close> when nothing is there.  It has
  one step, so every failure the environment makes is a failure of the call.
\<close>

definition os_Stat :: "path \<Rightarrow> world \<Rightarrow> (error + node) \<times> world" where
  "os_Stat p w =
     (let w' = w\<lparr>trace := trace w @ [Stat p]\<rparr> in
      case fault w (Stat p) of
        Some f \<Rightarrow> (Inl (PathError ''stat'' p (errno_of f)), w')
      | None \<Rightarrow>
          (case fs w p of
             None \<Rightarrow> (Inl (PathError ''stat'' p ENOENT), w')
           | Some n \<Rightarrow> (Inr n, w')))"

text \<open>
  \<^verbatim>\<open>os.WriteFile(name, data, perm)\<close> opens the file with \<^verbatim>\<open>O_WRONLY|O_CREATE|O_TRUNC\<close>,
  writes the data and closes the file.  The open fails when the environment refuses it,
  when the name is empty, when the parent is not a directory or when the name is a
  directory; then nothing has changed.  Once the open has succeeded the file exists and is empty: created with \<open>perm\<close>
  (before umask) if it did not exist, truncated with its permissions unchanged if it did.
  A failure of the write (\<open>FailsMidway e n\<close>) leaves the first \<open>n\<close> bytes in the file, a
  failure of the close (\<open>FailsClosing e\<close>) leaves all of them; both are returned as errors.
\<close>

definition open_errno :: "world \<Rightarrow> path \<Rightarrow> string \<Rightarrow> perm \<Rightarrow> errno option" where
  "open_errno w p data m =
     (case fault w (WriteFile p data m) of
        Some (Fails e) \<Rightarrow> Some e
      | _ \<Rightarrow>
          if p = [] then Some ENOENT
          else if \<not> is_dir (fs w) (butlast p)
          then Some (case fs w (butlast p) of Some (File _ _) \<Rightarrow> ENOTDIR | _ \<Rightarrow> ENOENT)
          else if is_dir (fs w) p then Some EISDIR
          else None)"

definition mode_after :: "world \<Rightarrow> path \<Rightarrow> perm \<Rightarrow> perm" where
  "mode_after w p m = (case fs w p of Some (File _ old) \<Rightarrow> old | _ \<Rightarrow> m AND NOT (umask w))"

definition os_WriteFile :: "path \<Rightarrow> string \<Rightarrow> perm \<Rightarrow> world \<Rightarrow> error option \<times> world" where
  "os_WriteFile p data m w =
     (let w' = w\<lparr>trace := trace w @ [WriteFile p data m]\<rparr>;
          holding = (\<lambda>content. w'\<lparr>fs := (fs w)(p \<mapsto> File content (mode_after w p m))\<rparr>)
      in case open_errno w p data m of
           Some e \<Rightarrow> (Some (PathError ''open'' p e), w')
         | None \<Rightarrow>
             (case fault w (WriteFile p data m) of
                Some (FailsMidway e n) \<Rightarrow> (Some (PathError ''write'' p e), holding (take n data))
              | Some (FailsClosing e) \<Rightarrow> (Some (PathError ''close'' p e), holding data)
              | Some (Fails e) \<Rightarrow> (Some (PathError ''open'' p e), w')
              | None \<Rightarrow> (None, holding data)))"

text \<open>
  \<^verbatim>\<open>os.ReadFile(name)\<close> opens the file, reads it to the end and closes it, dropping the
  error of the close.  Reading a directory fails with \<^verbatim>\<open>EISDIR\<close>.
\<close>

definition os_ReadFile :: "path \<Rightarrow> world \<Rightarrow> (error + string) \<times> world" where
  "os_ReadFile p w =
     (let w' = w\<lparr>trace := trace w @ [ReadFile p]\<rparr> in
      case fault w (ReadFile p) of
        Some (Fails e) \<Rightarrow> (Inl (PathError ''open'' p e), w')
      | late \<Rightarrow>
          (case fs w p of
             None \<Rightarrow> (Inl (PathError ''open'' p ENOENT), w')
           | Some (Dir _) \<Rightarrow> (Inl (PathError ''read'' p EISDIR), w')
           | Some (File data _) \<Rightarrow>
               (case late of
                  Some (FailsMidway e n) \<Rightarrow> (Inl (PathError ''read'' p e), w')
                | _ \<Rightarrow> (Inr data, w'))))"

text \<open>\<^verbatim>\<open>rsa.GenerateKey(rand.Reader, bits)\<close>: the next draw of the key source.\<close>

definition rsa_GenerateKey :: "nat \<Rightarrow> world \<Rightarrow> (error + rsa_PrivateKey) \<times> world" where
  "rsa_GenerateKey bits w =
     (keygen w (draws w), w\<lparr>draws := Suc (draws w), trace := trace w @ [GenerateKey bits]\<rparr>)"

section \<open>The encoding and remote-shell libraries\<close>

text \<open>
  The pure functions of \<^verbatim>\<open>crypto/x509\<close>, \<^verbatim>\<open>encoding/pem\<close> and \<^verbatim>\<open>golang.org/x/crypto/ssh\<close>
  that the package calls are parameters: \<open>'s\<close> is the type of an \<^verbatim>\<open>ssh.Signer\<close>, \<open>'p\<close> of
  an \<^verbatim>\<open>ssh.PublicKey\<close>.
\<close>

record ('s, 'p) libs =
  x509_MarshalPKCS1PrivateKey :: "rsa_PrivateKey \<Rightarrow> string"
  pem_EncodeToMemory :: "pem_Block \<Rightarrow> string"
  ssh_NewPublicKey :: "rsa_PublicKey \<Rightarrow> error + 'p"
  ssh_MarshalAuthorizedKey :: "'p \<Rightarrow> string"
  ssh_ParsePrivateKey :: "string \<Rightarrow> error + 's"
  Signer_PublicKey :: "'s \<Rightarrow> 'p"

section \<open>Package ssh: key bootstrap\<close>

definition DevPodSSHPrivateKeyFile :: string where
  "DevPodSSHPrivateKeyFile = ''id_devpod_rsa''"

definition DevPodSSHPublicKeyFile :: string where
  "DevPodSSHPublicKeyFile = ''id_devpod_rsa.pub''"

definition generateKeys :: "('s, 'p) libs \<Rightarrow> pem_Block \<Rightarrow> rsa_PrivateKey \<Rightarrow> error + string \<times> string" where
  "generateKeys L block cp =
     (let pkBytes = pem_EncodeToMemory L block;
          privateKey = pkBytes;
          publicKeyRaw = Public cp
      in case ssh_NewPublicKey L publicKeyRaw of
           Inl err \<Rightarrow> Inl err
         | Inr p \<Rightarrow> Inr (privateKey, ssh_MarshalAuthorizedKey L p))"

definition rsaKeyGen :: "('s, 'p) libs \<Rightarrow> world \<Rightarrow> (error + string \<times> string) \<times> world" where
  "rsaKeyGen L w =
     (case rsa_GenerateKey 2048 w of
        (Inl err, w') \<Rightarrow> (Inl (ErrorString (''generate private key: '' @ Error err)), w')
      | (Inr privateKeyRaw, w') \<Rightarrow>
          (generateKeys L
             \<lparr>Type = ''RSA PRIVATE KEY'',
              Bytes = x509_MarshalPKCS1PrivateKey L privateKeyRaw\<rparr>
             privateKeyRaw, w'))"

definition prepareDir :: "('s, 'p) libs \<Rightarrow> path \<Rightarrow> world \<Rightarrow> error option \<times> world" where
  "prepareDir L dir w =
     (case os_MkdirAll dir (octal 7 5 5) w of
        (Some err, w1) \<Rightarrow> (Some err, w1)
      | (None, w1) \<Rightarrow>
          (let privateKeyFile = filepath_Join dir DevPodSSHPrivateKeyFile;
               publicKeyFile = filepath_Join dir DevPodSSHPublicKeyFile
           in case os_Stat privateKeyFile w1 of
                (Inr _, w2) \<Rightarrow> (None, w2)
              | (Inl _, w2) \<Rightarrow>
                  (case rsaKeyGen L w2 of
                     (Inl err, w3) \<Rightarrow> (Some (Wrap err ''generate key pair''), w3)
                   | (Inr (privateKey, pubKey), w3) \<Rightarrow>
                       (case os_WriteFile publicKeyFile pubKey (octal 6 4 4) w3 of
                          (Some err, w4) \<Rightarrow> (Some (Wrap err ''write public ssh key''), w4)
                        | (None, w4) \<Rightarrow>
                            (case os_WriteFile privateKeyFile privateKey (octal 6 0 0) w4 of
                               (Some err, w5) \<Rightarrow> (Some (Wrap err ''write private ssh key''), w5)
                             | (None, w5) \<Rightarrow> (None, w5))))))"

definition GetPrivateKey :: "('s, 'p) libs \<Rightarrow> path \<Rightarrow> world \<Rightarrow> (error + string) \<times> world" where
  "GetPrivateKey L dir w =
     (let privateKeyFile = filepath_Join dir DevPodSSHPrivateKeyFile
      in case prepareDir L dir w of
           (Some err, w1) \<Rightarrow> (Inl err, w1)
         | (None, w1) \<Rightarrow>
             (case os_ReadFile privateKeyFile w1 of
                (Inl err, w2) \<Rightarrow> (Inl (Wrap err ''read public ssh key''), w2)
              | (Inr out, w2) \<Rightarrow> (Inr out, w2)))"

definition GetPublicKey :: "('s, 'p) libs \<Rightarrow> path \<Rightarrow> world \<Rightarrow> (error + string) \<times> world" where
  "GetPublicKey L dir w =
     (let publicKeyFile = filepath_Join dir DevPodSSHPublicKeyFile
      in case prepareDir L dir w of
           (Some err, w1) \<Rightarrow> (Inl err, w1)
         | (None, w1) \<Rightarrow>
             (case os_ReadFile publicKeyFile w1 of
                (Inl err, w2) \<Rightarrow> (Inl (Wrap err ''read public ssh key''), w2)
              | (Inr out, w2) \<Rightarrow> (Inr out, w2)))"

section \<open>Package ssh: remote-shell client factory\<close>

text \<open>
  \<^verbatim>\<open>ssh.PublicKeys(signers...)\<close> is the authentication method that signs with the given
  signers.  \<^verbatim>\<open>ssh.InsecureIgnoreHostKey()\<close> returns the callback that returns \<^verbatim>\<open>nil\<close> for
  every host name, remote address and host key.  \<^verbatim>\<open>ssh.Dial\<close> talks to the network and is a
  parameter.
\<close>

datatype 's AuthMethod = PublicKeys "'s list"

record ('s, 'p) ClientConfig =
  Auth :: "'s AuthMethod list"
  User :: string
  HostKeyCallback :: "string \<Rightarrow> string \<Rightarrow> 'p \<Rightarrow> error option"

definition ssh_InsecureIgnoreHostKey :: "string \<Rightarrow> string \<Rightarrow> 'p \<Rightarrow> error option" where
  "ssh_InsecureIgnoreHostKey = (\<lambda>hostname remote key. None)"

definition ConfigFromKeyBytes :: "('s, 'p) libs \<Rightarrow> string \<Rightarrow> error + ('s, 'p) ClientConfig" where
  "ConfigFromKeyBytes L keyBytes =
     (let clientConfig = \<lparr>Auth = [], User = ''devpod'', HostKeyCallback = ssh_InsecureIgnoreHostKey\<rparr>
      in case ssh_ParsePrivateKey L keyBytes of
           Inl err \<Rightarrow> Inl (Wrap err ''parse private key'')
         | Inr signer \<Rightarrow> Inr (clientConfig\<lparr>Auth := Auth clientConfig @ [PublicKeys [signer]]\<rparr>))"

definition NewClient ::
  "('s, 'p) libs \<Rightarrow> (string \<Rightarrow> string \<Rightarrow> ('s, 'p) ClientConfig \<Rightarrow> error + 'c) \<Rightarrow>
   string \<Rightarrow> string \<Rightarrow> error + 'c" where
  "NewClient L ssh_Dial addr keyBytes =
     (case ConfigFromKeyBytes L keyBytes of
        Inl err \<Rightarrow> Inl err
      | Inr sshConfig \<Rightarrow>
          (case ssh_Dial ''tcp'' addr sshConfig of
             Inl err \<Rightarrow> Inl (ErrorString (''dial to '' @ addr @ '' failed: '' @ Error err))
           | Inr client \<Rightarrow> Inr client))"

text \<open>
  What the libraries promise for an RSA key \<open>k\<close>: parsing the PEM block of type
  \<^verbatim>\<open>RSA PRIVATE KEY\<close> that holds the PKCS#1 encoding of \<open>k\<close> gives a signer, and the public
  key of that signer is the one \<^verbatim>\<open>ssh.NewPublicKey\<close> makes of \<open>k\<close>'s public half.
\<close>

definition codec_roundtrip :: "('s, 'p) libs \<Rightarrow> rsa_PrivateKey \<Rightarrow> bool" where
  "codec_roundtrip L k =
     (\<exists>signer.
        ssh_ParsePrivateKey L
          (pem_EncodeToMemory L
             \<lparr>Type = ''RSA PRIVATE KEY'', Bytes = x509_MarshalPKCS1PrivateKey L k\<rparr>) = Inr signer \<and>
        (\<forall>p. ssh_NewPublicKey L (Public k) = Inr p \<longrightarrow> Signer_PublicKey L signer = p))"

section \<open>Package cmd: the delete command\<close>

text \<open>
  Modelled from the spec: the configuration (package options) and the compute client
  wrapper (package gcloud) are not among the sources.  The configuration is
  \<open>{project, zone, machineID}\<close>; a client is a handle bound to \<open>{project, zone}\<close>,
  opened, used and closed.  The cloud records every call made to it, as a mock compute
  client does, and decides what each call answers.
\<close>

record Options =
  Project :: string
  Zone :: string
  MachineID :: string

record Client =
  clientProject :: string
  clientZone :: string

datatype verb = Create | Delete | Start | Stop

datatype api_event =
    Open string string
  | Call Client verb string
  | Close Client

record cloud =
  open_error :: "string \<Rightarrow> string \<Rightarrow> error option"
  call_error :: "Client \<Rightarrow> verb \<Rightarrow> string \<Rightarrow> error option"
  events :: "api_event list"

text \<open>Modelled from the spec: \<^verbatim>\<open>gcloud.NewClient(ctx, project, zone)\<close> opens a handle or fails.\<close>

definition gcloud_NewClient :: "string \<Rightarrow> string \<Rightarrow> cloud \<Rightarrow> (error + Client) \<times> cloud" where
  "gcloud_NewClient project zone c =
     (let c' = c\<lparr>events := events c @ [Open project zone]\<rparr> in
      case open_error c project zone of
        Some err \<Rightarrow> (Inl err, c')
      | None \<Rightarrow> (Inr \<lparr>clientProject = project, clientZone = zone\<rparr>, c'))"

text \<open>Modelled from the spec: \<^verbatim>\<open>client.Delete(ctx, name)\<close> is one call of the compute API.\<close>

definition Client_Delete :: "Client \<Rightarrow> string \<Rightarrow> cloud \<Rightarrow> error option \<times> cloud" where
  "Client_Delete client name c =
     (call_error c client Delete name, c\<lparr>events := events c @ [Call client Delete name]\<rparr>)"

text \<open>Modelled from the spec: \<^verbatim>\<open>client.Close()\<close> releases the handle.\<close>

definition Client_Close :: "Client \<Rightarrow> cloud \<Rightarrow> cloud" where
  "Client_Close client c = c\<lparr>events := events c @ [Close client]\<rparr>"

text \<open>
  \<^verbatim>\<open>DeleteCmd.Run\<close>: the deferred \<^verbatim>\<open>client.Close()\<close> runs after \<^verbatim>\<open>client.Delete\<close> has
  returned and before \<open>Run\<close> returns its result.
\<close>

definition Run :: "Options \<Rightarrow> cloud \<Rightarrow> error option \<times> cloud" where
  "Run options c =
     (case gcloud_NewClient (Project options) (Zone options) c of
        (Inl err, c1) \<Rightarrow> (Some err, c1)
      | (Inr client, c1) \<Rightarrow>
          (case Client_Delete client (MachineID options) c1 of
             (result, c2) \<Rightarrow> (result, Client_Close client c2)))"

text \<open>
  The \<^verbatim>\<open>RunE\<close> closure of \<^verbatim>\<open>NewDeleteCmd\<close>; \<open>fromEnv\<close> is what \<^verbatim>\<open>options.FromEnv()\<close>
  returned.
\<close>

definition RunE :: "error + Options \<Rightarrow> cloud \<Rightarrow> error option \<times> cloud" where
  "RunE fromEnv c =
     (case fromEnv of
        Inl err \<Rightarrow> (Some err, c)
      | Inr options \<Rightarrow> Run options c)"

text \<open>The calls of the compute API in a record: opening and closing a handle are none.\<close>

fun is_api_call :: "api_event \<Rightarrow> bool" where
  "is_api_call (Call client m name) = True"
| "is_api_call (Open project zone) = False"
| "is_api_call (Close client) = False"

definition api_calls :: "api_event list \<Rightarrow> api_event list" where
  "api_calls evs = filter is_api_call evs"

section \<open>Predicates on the file tree and the call log\<close>

text \<open>The directory and all its ancestors exist (as directories).\<close>

fun dirs_exist :: "tree \<Rightarrow> path \<Rightarrow> path \<Rightarrow> bool" where
  "dirs_exist t at [] = True"
| "dirs_exist t at (c # cs) = (is_dir t (at @ [c]) \<and> dirs_exist t (at @ [c]) cs)"

text \<open>The directory exists and nothing is inside it.\<close>

definition empty_dir :: "tree \<Rightarrow> path \<Rightarrow> bool" where
  "empty_dir t dir = (dirs_exist t [] dir \<and> (\<forall>p. p \<noteq> [] \<longrightarrow> t (dir @ p) = None))"

text \<open>Neither the directory nor anything below it exists.\<close>

definition missing_dir :: "tree \<Rightarrow> path \<Rightarrow> bool" where
  "missing_dir t dir = (dir \<noteq> [] \<and> (\<forall>p. t (dir @ p) = None))"

text \<open>How many keys a call log shows to have been generated.\<close>

fun is_GenerateKey :: "call \<Rightarrow> bool" where
  "is_GenerateKey (GenerateKey bits) = True"
| "is_GenerateKey (MkdirAll p m) = False"
| "is_GenerateKey (Stat p) = False"
| "is_GenerateKey (WriteFile p data m) = False"
| "is_GenerateKey (ReadFile p) = False"

definition generations :: "call list \<Rightarrow> nat" where
  "generations tr = length (filter is_GenerateKey tr)"

section \<open>A concrete environment\<close>

text \<open>
  Two keys and a small codec that tells them apart: it encodes a key by a tag and parses
  the tag back, so a private-key string and a public-key string fit together only if they
  come from the same key.
\<close>

definition demo_key :: rsa_PrivateKey where
  "demo_key = \<lparr>PublicKey = \<lparr>N = 3233, E = 17\<rparr>, D = 413, Primes = [61, 53]\<rparr>"

definition other_key :: rsa_PrivateKey where
  "other_key = \<lparr>PublicKey = \<lparr>N = 2773, E = 17\<rparr>, D = 157, Primes = [47, 59]\<rparr>"

definition demo_libs :: "(rsa_PrivateKey, rsa_PublicKey) libs" where
  "demo_libs =
     \<lparr>x509_MarshalPKCS1PrivateKey = (\<lambda>k. if k = demo_key then ''der-A'' else ''der-B''),
      pem_EncodeToMemory = (\<lambda>b. Type b @ '':'' @ Bytes b),
      ssh_NewPublicKey = (\<lambda>k. Inr k),
      ssh_MarshalAuthorizedKey =
        (\<lambda>p. if p = PublicKey demo_key then ''ssh-rsa A'' else ''ssh-rsa B''),
      ssh_ParsePrivateKey =
        (\<lambda>s. if s = ''RSA PRIVATE KEY:der-A'' then Inr demo_key
              else if s = ''RSA PRIVATE KEY:der-B'' then Inr other_key
              else Inl (ErrorString ''ssh: no key found'')),
      Signer_PublicKey = PublicKey\<rparr>"

definition demo_dir :: path where
  "demo_dir = [''home'', ''ssh'']"

definition empty_world :: world where
  "empty_world =
     \<lparr>fs = Map.empty, umask = octal 0 2 2, fault = (\<lambda>c. None),
      keygen = (\<lambda>n. Inr demo_key), draws = 0, trace = []\<rparr>"

text \<open>A world whose directory holds a private-key file that is not a key at all.\<close>

definition keyed_world :: world where
  "keyed_world =
     empty_world\<lparr>fs := [[''home''] \<mapsto> Dir (octal 7 5 5),
                        [''home'', ''ssh''] \<mapsto> Dir (octal 7 0 0),
                        [''home'', ''ssh'', ''id_devpod_rsa''] \<mapsto> File ''garbage'' (octal 6 4 4)]\<rparr>"

text \<open>The directory exists and is empty.\<close>

definition fresh_world :: world where
  "fresh_world =
     empty_world\<lparr>fs := [[''home''] \<mapsto> Dir (octal 7 5 5),
                        [''home'', ''ssh''] \<mapsto> Dir (octal 7 0 0)]\<rparr>"

text \<open>A public-key file is left over, readable by its owner only; the private key is gone.\<close>

definition stale_world :: world where
  "stale_world =
     empty_world\<lparr>fs := [[''home''] \<mapsto> Dir (octal 7 5 5),
                        [''home'', ''ssh''] \<mapsto> Dir (octal 7 0 0),
                        [''home'', ''ssh'', ''id_devpod_rsa.pub''] \<mapsto> File ''ssh-rsa old'' (octal 6 0 0)]\<rparr>"

text \<open>
  The quota is used up: the private-key file can be created, but no byte of it written.
\<close>

definition quota_world :: world where
  "quota_world =
     fresh_world\<lparr>fault := (\<lambda>c. case c of
                                 WriteFile p data m \<Rightarrow>
                                   if p = [''home'', ''ssh'', ''id_devpod_rsa'']
                                   then Some (FailsMidway ENOSPC 0) else None
                               | _ \<Rightarrow> None)\<rparr>"

text \<open>Both key files are there but the environment refuses to open any file for reading.\<close>

definition unreadable_world :: world where
  "unreadable_world =
     keyed_world\<lparr>fs := (fs keyed_world)
                        ([''home'', ''ssh'', ''id_devpod_rsa.pub''] \<mapsto> File ''ssh-rsa A'' (octal 6 4 4)),
                  fault := (\<lambda>c. case c of ReadFile p \<Rightarrow> Some (Fails EACCES) | _ \<Rightarrow> None)\<rparr>"

text \<open>
  The private-key file is there, but \<^verbatim>\<open>os.Stat\<close> fails on it with an input/output error
  (a stale handle on a network file system, say); nothing else fails.
\<close>

definition flaky_world :: world where
  "flaky_world =
     keyed_world\<lparr>fault := (\<lambda>c. case c of Stat p \<Rightarrow> Some (Fails EIO) | _ \<Rightarrow> None)\<rparr>"

text \<open>
  The private-key file is there, but the user may not search the directory: looking a
  file up in it, creating one and opening one are all refused.
\<close>

definition locked_world :: world where
  "locked_world =
     keyed_world\<lparr>fault := (\<lambda>c. case c of
                                 Stat p \<Rightarrow> Some (Fails EACCES)
                               | WriteFile p data m \<Rightarrow> Some (Fails EACCES)
                               | ReadFile p \<Rightarrow> Some (Fails EACCES)
                               | _ \<Rightarrow> None)\<rparr>"

text \<open>
  An empty directory where \<^verbatim>\<open>os.Stat\<close> keeps failing with an input/output error; the key
  source gives one key first and another key from then on.
\<close>

definition forgetful_world :: world where
  "forgetful_world =
     fresh_world\<lparr>fault := (\<lambda>c. case c of Stat p \<Rightarrow> Some (Fails EIO) | _ \<Rightarrow> None),
                  keygen := (\<lambda>n. Inr (if n = 0 then demo_key else other_key))\<rparr>"

text \<open>
  A public-key file is left over in a directory the user may not write to: the file can
  be rewritten, but no file can be created beside it.
\<close>

definition readonly_world :: world where
  "readonly_world =
     stale_world\<lparr>fault := (\<lambda>c. case c of
                                 WriteFile p data m \<Rightarrow>
                                   if p = [''home'', ''ssh'', ''id_devpod_rsa'']
                                   then Some (Fails EACCES) else None
                               | _ \<Rightarrow> None)\<rparr>"

text \<open>A regular file stands where the directory's parent should be.\<close>

definition blocked_world :: world where
  "blocked_world = empty_world\<lparr>fs := [[''home''] \<mapsto> File ''not a directory'' (octal 6 4 4)]\<rparr>"

text \<open>A cloud that answers every call with success, and one whose delete call fails.\<close>

definition demo_options :: Options where
  "demo_options = \<lparr>Project = ''proj'', Zone = ''europe-west1-b'', MachineID = ''devpod-1''\<rparr>"

definition quiet_cloud :: cloud where
  "quiet_cloud = \<lparr>open_error = (\<lambda>project zone. None), call_error = (\<lambda>client m name. None), events = []\<rparr>"

definition failing_cloud :: cloud where
  "failing_cloud = quiet_cloud\<lparr>call_error := (\<lambda>client m name. Some (ErrorString ''googleapi: Error 404''))\<rparr>"

text \<open>A cloud that lets no client be opened.\<close>

definition closed_cloud :: cloud where
  "closed_cloud =
     quiet_cloud\<lparr>open_error := (\<lambda>project zone. Some (ErrorString ''could not find default credentials''))\<rparr>"

section \<open>How the calls change the world\<close>

lemma mkdirs_dirs_exist: "dirs_exist t at cs \<Longrightarrow> mkdirs m at cs t = Inr t"
  by (induction cs arbitrary: at) (auto simp: is_dir_def split: option.splits node.splits)

lemma mkdirs_outside:
  "mkdirs m at cs t = Inr t' \<Longrightarrow> length (at @ cs) < length p \<Longrightarrow> t' p = t p"
proof (induction cs arbitrary: at t)
  case Nil
  then show ?case by simp
next
  case (Cons c cs)
  have neq: "p \<noteq> at @ [c]"
    using Cons.prems(2) by auto
  show ?case
  proof (cases "t (at @ [c])")
    case None
    with Cons.prems have "mkdirs m (at @ [c]) cs (t((at @ [c]) \<mapsto> Dir m)) = Inr t'"
      by simp
    from Cons.IH [OF this] Cons.prems(2) neq show ?thesis by simp
  next
    case (Some n)
    with Cons.prems obtain d where "n = Dir d" and "mkdirs m (at @ [c]) cs t = Inr t'"
      by (cases n) auto
    from Cons.IH [OF this(2)] Cons.prems(2) show ?thesis by simp
  qed
qed

lemma mkdirs_keeps:
  "mkdirs m at cs t = Inr t' \<Longrightarrow> t p = Some n \<Longrightarrow> t' p = Some n"
proof (induction cs arbitrary: at t)
  case Nil
  then show ?case by simp
next
  case (Cons c cs)
  show ?case
  proof (cases "t (at @ [c])")
    case None
    with Cons.prems have step: "mkdirs m (at @ [c]) cs (t((at @ [c]) \<mapsto> Dir m)) = Inr t'"
      by simp
    from None Cons.prems(2) have "p \<noteq> at @ [c]" by auto
    then have "(t((at @ [c]) \<mapsto> Dir m)) p = Some n"
      using Cons.prems(2) by simp
    from Cons.IH [OF step this] show ?thesis .
  next
    case (Some k)
    with Cons.prems obtain d where "k = Dir d" and "mkdirs m (at @ [c]) cs t = Inr t'"
      by (cases k) auto
    from Cons.IH [OF this(2) Cons.prems(2)] show ?thesis .
  qed
qed

lemma mkdirs_then_exist:
  "mkdirs m at cs t = Inr t' \<Longrightarrow> dirs_exist t' at cs"
proof (induction cs arbitrary: at t)
  case Nil
  then show ?case by simp
next
  case (Cons c cs)
  show ?case
  proof (cases "t (at @ [c])")
    case None
    with Cons.prems have step: "mkdirs m (at @ [c]) cs (t((at @ [c]) \<mapsto> Dir m)) = Inr t'"
      by simp
    have "t' (at @ [c]) = Some (Dir m)"
      by (rule mkdirs_keeps [OF step]) simp
    with Cons.IH [OF step] show ?thesis by (simp add: is_dir_def)
  next
    case (Some k)
    with Cons.prems obtain d where k: "k = Dir d" and step: "mkdirs m (at @ [c]) cs t = Inr t'"
      by (cases k) auto
    from Some k have "t' (at @ [c]) = Some (Dir d)"
      by (simp add: mkdirs_keeps [OF step])
    with Cons.IH [OF step] show ?thesis by (simp add: is_dir_def)
  qed
qed

text \<open>A directory that was missing is created with the given mode.\<close>

lemma mkdirs_created:
  "mkdirs m at cs t = Inr t' \<Longrightarrow> cs \<noteq> [] \<Longrightarrow> t (at @ cs) = None \<Longrightarrow>
   t' (at @ cs) = Some (Dir m)"
proof (induction cs arbitrary: at t)
  case Nil
  then show ?case by simp
next
  case (Cons c cs)
  show ?case
  proof (cases "cs = []")
    case True
    with Cons.prems show ?thesis by auto
  next
    case False
    show ?thesis
    proof (cases "t (at @ [c])")
      case None
      with Cons.prems have step: "mkdirs m (at @ [c]) cs (t((at @ [c]) \<mapsto> Dir m)) = Inr t'"
        by simp
      from False have "(at @ [c]) @ cs \<noteq> at @ [c]" by simp
      then have "(t((at @ [c]) \<mapsto> Dir m)) ((at @ [c]) @ cs) = None"
        using Cons.prems(3) by simp
      from Cons.IH [OF step False this] show ?thesis by simp
    next
      case (Some k)
      with Cons.prems obtain d where "k = Dir d" and step: "mkdirs m (at @ [c]) cs t = Inr t'"
        by (cases k) auto
      from Cons.prems(3) have "t ((at @ [c]) @ cs) = None" by simp
      from Cons.IH [OF step False this] show ?thesis by simp
    qed
  qed
qed

lemma dirs_exist_update:
  "dirs_exist t at cs \<Longrightarrow> length (at @ cs) < length p \<Longrightarrow> dirs_exist (t(p \<mapsto> n)) at cs"
  by (induction cs arbitrary: at) (auto simp: is_dir_def)

lemma dirs_exist_take: "dirs_exist t at cs \<Longrightarrow> dirs_exist t at (take k cs)"
proof (induction cs arbitrary: at k)
  case Nil
  then show ?case by simp
next
  case (Cons c cs)
  then show ?case by (cases k) simp_all
qed

text \<open>Where the directory exists, \<^verbatim>\<open>os.MkdirAll\<close> changes nothing, whether it fails or not.\<close>

lemma os_MkdirAll_existing:
  "dirs_exist (fs w) [] p \<Longrightarrow>
   snd (os_MkdirAll p m w) = w\<lparr>trace := trace w @ [MkdirAll p m]\<rparr>"
  by (simp add: os_MkdirAll_def Let_def mkdirs_dirs_exist dirs_exist_take
      split: option.splits failure.splits)

lemma os_MkdirAll_existing_ok:
  "dirs_exist (fs w) [] p \<Longrightarrow> p \<noteq> [] \<Longrightarrow> fault w (MkdirAll p m) = None \<Longrightarrow>
   os_MkdirAll p m w = (None, w\<lparr>trace := trace w @ [MkdirAll p m]\<rparr>)"
  by (simp add: os_MkdirAll_def Let_def mkdirs_dirs_exist)

lemma dirs_exist_is_dir:
  "dirs_exist t at cs \<Longrightarrow> is_dir t at \<Longrightarrow> is_dir t (at @ cs)"
proof (induction cs arbitrary: at)
  case Nil
  then show ?case by simp
next
  case (Cons c cs)
  from Cons.IH [of "at @ [c]"] Cons.prems show ?case by simp
qed

lemma mkdirs_is_dir: "mkdirs m [] dir t = Inr t' \<Longrightarrow> is_dir t' dir"
  using dirs_exist_is_dir [OF mkdirs_then_exist, of m "[]" dir t t']
  by (simp add: is_dir_def)

lemma os_MkdirAll_ok:
  "p \<noteq> [] \<Longrightarrow> fault w (MkdirAll p m) = None \<Longrightarrow>
   mkdirs (m AND NOT (umask w)) [] p (fs w) = Inr t \<Longrightarrow>
   os_MkdirAll p m w = (None, w\<lparr>trace := trace w @ [MkdirAll p m], fs := t\<rparr>)"
  by (simp add: os_MkdirAll_def)

lemma os_MkdirAll_NoneD:
  "fst (os_MkdirAll p m w) = None \<Longrightarrow>
   p \<noteq> [] \<and> fault w (MkdirAll p m) = None \<and>
   (\<exists>t. mkdirs (m AND NOT (umask w)) [] p (fs w) = Inr t)"
  by (auto simp: os_MkdirAll_def Let_def split: option.splits sum.splits failure.splits if_splits)

lemma os_Stat_absent:
  "fs w p = None \<Longrightarrow>
   \<exists>e. os_Stat p w = (Inl (PathError ''stat'' p e), w\<lparr>trace := trace w @ [Stat p]\<rparr>)"
  by (cases "fault w (Stat p)") (simp_all add: os_Stat_def)

lemma rsaKeyGen_snd:
  "snd (rsaKeyGen L w) = w\<lparr>draws := Suc (draws w), trace := trace w @ [GenerateKey 2048]\<rparr>"
  by (simp add: rsaKeyGen_def rsa_GenerateKey_def split: sum.splits)

lemma rsaKeyGen_fst:
  "keygen v = keygen w \<Longrightarrow> draws v = draws w \<Longrightarrow> fst (rsaKeyGen L v) = fst (rsaKeyGen L w)"
  by (simp add: rsaKeyGen_def rsa_GenerateKey_def split: sum.splits)

lemma rsaKeyGen_eq:
  "keygen v = keygen w \<Longrightarrow> draws v = draws w \<Longrightarrow>
   rsaKeyGen L v =
     (fst (rsaKeyGen L w), v\<lparr>draws := Suc (draws v), trace := trace v @ [GenerateKey 2048]\<rparr>)"
  using rsaKeyGen_fst [of v w L] rsaKeyGen_snd [of L v]
  by (metis prod.collapse)

lemma key_files_differ: "filepath_Join dir DevPodSSHPublicKeyFile \<noteq> filepath_Join dir DevPodSSHPrivateKeyFile"
  by (simp add: filepath_Join_def DevPodSSHPublicKeyFile_def DevPodSSHPrivateKeyFile_def)

text \<open>The path through \<open>prepareDir\<close> when the private-key file is absent, up to the writes.\<close>

lemma prepareDir_generate:
  fixes L :: "('s, 'p) libs"
  assumes mk: "dir \<noteq> []" "fault w (MkdirAll dir (octal 7 5 5)) = None"
              "mkdirs (octal 7 5 5 AND NOT (umask w)) [] dir (fs w) = Inr t"
    and absent: "fs w (filepath_Join dir DevPodSSHPrivateKeyFile) = None"
  shows "prepareDir L dir w =
     (let w3 = w\<lparr>fs := t, draws := Suc (draws w),
                  trace := trace w @ [MkdirAll dir (octal 7 5 5),
                                      Stat (filepath_Join dir DevPodSSHPrivateKeyFile),
                                      GenerateKey 2048]\<rparr>
      in case fst (rsaKeyGen L w) of
           Inl err \<Rightarrow> (Some (Wrap err ''generate key pair''), w3)
         | Inr (privateKey, pubKey) \<Rightarrow>
            (case os_WriteFile (filepath_Join dir DevPodSSHPublicKeyFile) pubKey (octal 6 4 4) w3 of
               (Some err, w4) \<Rightarrow> (Some (Wrap err ''write public ssh key''), w4)
             | (None, w4) \<Rightarrow>
                (case os_WriteFile (filepath_Join dir DevPodSSHPrivateKeyFile) privateKey (octal 6 0 0) w4 of
                   (Some err, w5) \<Rightarrow> (Some (Wrap err ''write private ssh key''), w5)
                 | (None, w5) \<Rightarrow> (None, w5))))"
proof -
  let ?priv = "filepath_Join dir DevPodSSHPrivateKeyFile"
  let ?w1 = "w\<lparr>trace := trace w @ [MkdirAll dir (octal 7 5 5)], fs := t\<rparr>"
  let ?w2 = "?w1\<lparr>trace := trace ?w1 @ [Stat ?priv]\<rparr>"
  have "length ([] @ dir) < length ?priv"
    by (simp add: filepath_Join_def)
  from mkdirs_outside [OF mk(3) this] absent have "fs ?w1 ?priv = None"
    by simp
  from os_Stat_absent [OF this] obtain e where
    stat: "os_Stat ?priv ?w1 = (Inl (PathError ''stat'' ?priv e), ?w2)"
    by blast
  have keys: "rsaKeyGen L ?w2 =
      (fst (rsaKeyGen L w), ?w2\<lparr>draws := Suc (draws ?w2), trace := trace ?w2 @ [GenerateKey 2048]\<rparr>)"
    using rsaKeyGen_eq [of ?w2 w L] by simp
  show ?thesis
    using stat keys
    by (simp add: prepareDir_def os_MkdirAll_ok [OF mk] Let_def split: sum.splits)
qed

lemma mkdirs_key_file:
  "mkdirs m [] dir t = Inr t' \<Longrightarrow> t' (filepath_Join dir name) = t (filepath_Join dir name)"
  using mkdirs_outside [of m "[]" dir t t' "filepath_Join dir name"]
  by (simp add: filepath_Join_def)

lemma butlast_Join: "butlast (filepath_Join dir name) = dir"
  by (simp add: filepath_Join_def)

lemma Join_not_root: "filepath_Join dir name \<noteq> []"
  by (simp add: filepath_Join_def)

lemma is_dir_Join:
  "is_dir t (filepath_Join dir name) =
     (case t (filepath_Join dir name) of Some (Dir _) \<Rightarrow> True | _ \<Rightarrow> False)"
  by (simp add: is_dir_def filepath_Join_def)

lemma prepareDir_success_absent:
  fixes L :: "('s, 'p) libs"
  assumes ok: "prepareDir L dir w = (None, w')"
    and absent: "fs w (filepath_Join dir DevPodSSHPrivateKeyFile) = None"
  shows "\<exists>t privateKey pubKey.
      mkdirs (octal 7 5 5 AND NOT (umask w)) [] dir (fs w) = Inr t \<and>
      fst (rsaKeyGen L w) = Inr (privateKey, pubKey) \<and>
      w' = w\<lparr>fs := t(filepath_Join dir DevPodSSHPublicKeyFile \<mapsto>
                      File pubKey (mode_after w (filepath_Join dir DevPodSSHPublicKeyFile) (octal 6 4 4)),
                    filepath_Join dir DevPodSSHPrivateKeyFile \<mapsto>
                      File privateKey (octal 6 0 0 AND NOT (umask w))),
             draws := Suc (draws w),
             trace := trace w @ [MkdirAll dir (octal 7 5 5),
                                 Stat (filepath_Join dir DevPodSSHPrivateKeyFile),
                                 GenerateKey 2048,
                                 WriteFile (filepath_Join dir DevPodSSHPublicKeyFile) pubKey (octal 6 4 4),
                                 WriteFile (filepath_Join dir DevPodSSHPrivateKeyFile) privateKey (octal 6 0 0)]\<rparr>"
proof -
  obtain r1 w1 where m: "os_MkdirAll dir (octal 7 5 5) w = (r1, w1)"
    by (cases "os_MkdirAll dir (octal 7 5 5) w")
  with ok have "r1 = None"
    by (cases r1) (simp_all add: prepareDir_def)
  with m have "fst (os_MkdirAll dir (octal 7 5 5) w) = None" by simp
  from os_MkdirAll_NoneD [OF this] obtain t where
    nonempty: "dir \<noteq> []" and
    nofault: "fault w (MkdirAll dir (octal 7 5 5)) = None" and
    t: "mkdirs (octal 7 5 5 AND NOT (umask w)) [] dir (fs w) = Inr t"
    by blast
  note run = prepareDir_generate [OF nonempty nofault t absent, of L]
  have tree: "t (filepath_Join dir DevPodSSHPublicKeyFile) = fs w (filepath_Join dir DevPodSSHPublicKeyFile)"
    "t (filepath_Join dir DevPodSSHPrivateKeyFile) = None"
    using mkdirs_key_file [OF t] absent by simp_all
  obtain privateKey pubKey where gen: "fst (rsaKeyGen L w) = Inr (privateKey, pubKey)"
    using ok unfolding run Let_def by (cases "fst (rsaKeyGen L w)") auto
  have "w' = w\<lparr>fs := t(filepath_Join dir DevPodSSHPublicKeyFile \<mapsto>
                      File pubKey (mode_after w (filepath_Join dir DevPodSSHPublicKeyFile) (octal 6 4 4)),
                    filepath_Join dir DevPodSSHPrivateKeyFile \<mapsto>
                      File privateKey (octal 6 0 0 AND NOT (umask w))),
             draws := Suc (draws w),
             trace := trace w @ [MkdirAll dir (octal 7 5 5),
                                 Stat (filepath_Join dir DevPodSSHPrivateKeyFile),
                                 GenerateKey 2048,
                                 WriteFile (filepath_Join dir DevPodSSHPublicKeyFile) pubKey (octal 6 4 4),
                                 WriteFile (filepath_Join dir DevPodSSHPrivateKeyFile) privateKey (octal 6 0 0)]\<rparr>"
    using ok tree key_files_differ [of dir] unfolding run Let_def gen
    by (auto simp: os_WriteFile_def mode_after_def Let_def split: option.splits failure.splits
             cong: option.case_cong node.case_cong)
  with t gen show ?thesis by blast
qed

lemma prepareDir_present:
  fixes L :: "('s, 'p) libs"
  assumes "dirs_exist (fs v) [] dir"
    and "fs v (filepath_Join dir DevPodSSHPrivateKeyFile) = Some n"
    and "fault v (Stat (filepath_Join dir DevPodSSHPrivateKeyFile)) = None"
    and "dir \<noteq> []"
    and "fault v (MkdirAll dir (octal 7 5 5)) = None"
  shows "prepareDir L dir v =
     (None, v\<lparr>trace := trace v @ [MkdirAll dir (octal 7 5 5),
                                   Stat (filepath_Join dir DevPodSSHPrivateKeyFile)]\<rparr>)"
  using assms by (simp add: prepareDir_def os_MkdirAll_existing_ok os_Stat_def)

lemma prepareDir_success_fault:
  fixes L :: "('s, 'p) libs"
  assumes "prepareDir L dir w = (None, w')"
  shows "dir \<noteq> [] \<and> fault w (MkdirAll dir (octal 7 5 5)) = None"
proof -
  obtain r1 w1 where m: "os_MkdirAll dir (octal 7 5 5) w = (r1, w1)"
    by (cases "os_MkdirAll dir (octal 7 5 5) w")
  with assms have "r1 = None"
    by (cases r1) (simp_all add: prepareDir_def)
  with m have "fst (os_MkdirAll dir (octal 7 5 5) w) = None" by simp
  from os_MkdirAll_NoneD [OF this] show ?thesis by simp
qed

lemma os_WriteFile_other: "q \<noteq> p \<Longrightarrow> fs (snd (os_WriteFile p d m w)) q = fs w q"
  by (simp add: os_WriteFile_def Let_def split: option.splits failure.splits)

lemma os_WriteFile_draws: "draws (snd (os_WriteFile p d m w)) = draws w"
  by (simp add: os_WriteFile_def Let_def split: option.splits failure.splits)

lemma os_WriteFile_trace: "trace (snd (os_WriteFile p d m w)) = trace w @ [WriteFile p d m]"
  by (simp add: os_WriteFile_def Let_def split: option.splits failure.splits)

lemma os_ReadFile_snd: "snd (os_ReadFile p w) = w\<lparr>trace := trace w @ [ReadFile p]\<rparr>"
  by (simp add: os_ReadFile_def Let_def split: option.splits node.splits failure.splits)

lemmas run_defs =
  prepareDir_def GetPrivateKey_def GetPublicKey_def os_MkdirAll_def os_Stat_def os_WriteFile_def
  os_ReadFile_def open_errno_def mode_after_def rsaKeyGen_def rsa_GenerateKey_def generateKeys_def
  Public_def filepath_Join_def DevPodSSHPrivateKeyFile_def DevPodSSHPublicKeyFile_def is_dir_def
  octal_def Let_def

lemmas demo_defs =
  demo_libs_def demo_key_def other_key_def demo_dir_def empty_world_def fresh_world_def stale_world_def
  quota_world_def keyed_world_def unreadable_world_def blocked_world_def flaky_world_def
  locked_world_def forgetful_world_def readonly_world_def

section \<open>Key bootstrap: an existing private key\<close>

text \<open>
  Claim C1, as amended.  Take a directory that exists and holds a private-key file
  \<^verbatim>\<open>id_devpod_rsa\<close> with any content, and let \<^verbatim>\<open>os.Stat\<close> on that file report no error.
  Then \<open>prepareDir\<close> leaves the world as it was but for the call log, and the calls it
  adds are the \<^verbatim>\<open>MkdirAll\<close> alone or the \<^verbatim>\<open>MkdirAll\<close> and the \<^verbatim>\<open>Stat\<close>: no key is
  generated (the key source is not drawn from) and no file is written.  Where the
  \<^verbatim>\<open>MkdirAll\<close> and the read do not fail, a \<open>GetPrivateKey\<close> after it returns exactly the
  content of the file.
\<close>

theorem existing_private_key_is_kept:
  fixes L :: "('s, 'p) libs"
  assumes dir: "dirs_exist (fs w) [] dir"
    and key: "fs w (filepath_Join dir DevPodSSHPrivateKeyFile) = Some (File content m)"
    and stat: "fault w (Stat (filepath_Join dir DevPodSSHPrivateKeyFile)) = None"
  shows "(snd (prepareDir L dir w) = w\<lparr>trace := trace w @ [MkdirAll dir (octal 7 5 5)]\<rparr> \<or>
          snd (prepareDir L dir w) =
            w\<lparr>trace := trace w @ [MkdirAll dir (octal 7 5 5),
                                     Stat (filepath_Join dir DevPodSSHPrivateKeyFile)]\<rparr>) \<and>
         (fst (os_MkdirAll dir (octal 7 5 5) w) = None \<and>
          fault w (ReadFile (filepath_Join dir DevPodSSHPrivateKeyFile)) = None \<longrightarrow>
          fst (GetPrivateKey L dir (snd (prepareDir L dir w))) = Inr content)"
proof (cases "fst (os_MkdirAll dir (octal 7 5 5) w)")
  case (Some e)
  then have "prepareDir L dir w = (Some e, snd (os_MkdirAll dir (octal 7 5 5) w))"
    by (cases "os_MkdirAll dir (octal 7 5 5) w") (simp add: prepareDir_def)
  with Some show ?thesis
    by (simp add: os_MkdirAll_existing [OF dir])
next
  case None
  let ?priv = "filepath_Join dir DevPodSSHPrivateKeyFile"
  let ?w2 = "w\<lparr>trace := trace w @ [MkdirAll dir (octal 7 5 5), Stat ?priv]\<rparr>"
  from os_MkdirAll_NoneD [OF None]
  have nonempty: "dir \<noteq> []" and nofault: "fault w (MkdirAll dir (octal 7 5 5)) = None"
    by simp_all
  have run: "\<And>v. fs v = fs w \<Longrightarrow> fault v = fault w \<Longrightarrow>
      prepareDir L dir v =
        (None, v\<lparr>trace := trace v @ [MkdirAll dir (octal 7 5 5), Stat ?priv]\<rparr>)"
    using dir key stat nonempty nofault
    by (simp add: prepareDir_present)
  have first: "prepareDir L dir w = (None, ?w2)"
    by (simp add: run)
  have "fault w (ReadFile ?priv) = None \<Longrightarrow>
      fst (GetPrivateKey L dir ?w2) = Inr content"
    using key by (simp add: GetPrivateKey_def run os_ReadFile_def Let_def)
  with first show ?thesis by simp
qed

theorem existing_private_key_is_kept_witness:
  "dirs_exist (fs keyed_world) [] demo_dir \<and>
   fs keyed_world (filepath_Join demo_dir DevPodSSHPrivateKeyFile) = Some (File ''garbage'' (octal 6 4 4)) \<and>
   fault keyed_world (Stat (filepath_Join demo_dir DevPodSSHPrivateKeyFile)) = None \<and>
   fst (os_MkdirAll demo_dir (octal 7 5 5) keyed_world) = None \<and>
   fault keyed_world (ReadFile (filepath_Join demo_dir DevPodSSHPrivateKeyFile)) = None \<and>
   generations (trace (snd (prepareDir demo_libs demo_dir keyed_world))) = 0 \<and>
   fst (GetPrivateKey demo_libs demo_dir (snd (prepareDir demo_libs demo_dir keyed_world))) = Inr ''garbage''"
proof -
  have h1: "dirs_exist (fs keyed_world) [] demo_dir"
    by (simp add: keyed_world_def empty_world_def demo_dir_def is_dir_def)
  have h2: "fs keyed_world (filepath_Join demo_dir DevPodSSHPrivateKeyFile) = Some (File ''garbage'' (octal 6 4 4))"
    by (simp add: keyed_world_def empty_world_def demo_dir_def filepath_Join_def DevPodSSHPrivateKeyFile_def)
  have h3: "\<And>c. fault keyed_world c = None"
    by (simp add: keyed_world_def empty_world_def)
  have h4: "fst (os_MkdirAll demo_dir (octal 7 5 5) keyed_world) = None"
    by (simp add: run_defs demo_defs)
  have g: "generations (trace (snd (prepareDir demo_libs demo_dir keyed_world))) = 0"
    by (simp add: run_defs demo_defs generations_def)
  show ?thesis
    using existing_private_key_is_kept [OF h1 h2 h3, of demo_libs] h1 h2 h3 h4 g by simp
qed

text \<open>
  The claim as it was worded, for every directory whose private-key file exists, fails:
  \<open>prepareDir\<close> takes every error of \<^verbatim>\<open>os.Stat\<close> for the absence of the file.  Where the
  file is there and \<^verbatim>\<open>os.Stat\<close> fails on it, a successful \<open>prepareDir\<close> generates a key and
  overwrites the file; where the directory cannot be searched, \<open>prepareDir\<close> still
  generates a key before its write is refused.
\<close>

theorem existing_private_key_is_regenerated:
  "fs flaky_world (filepath_Join demo_dir DevPodSSHPrivateKeyFile) =
     Some (File ''garbage'' (octal 6 4 4)) \<and>
   fst (prepareDir demo_libs demo_dir flaky_world) = None \<and>
   generations (trace (snd (prepareDir demo_libs demo_dir flaky_world))) = 1 \<and>
   fs (snd (prepareDir demo_libs demo_dir flaky_world)) (filepath_Join demo_dir DevPodSSHPrivateKeyFile) =
     Some (File ''RSA PRIVATE KEY:der-A'' (octal 6 4 4)) \<and>
   fs locked_world (filepath_Join demo_dir DevPodSSHPrivateKeyFile) =
     Some (File ''garbage'' (octal 6 4 4)) \<and>
   generations (trace (snd (prepareDir demo_libs demo_dir locked_world))) = 1"
  by (simp add: run_defs demo_defs generations_def)

section \<open>Key bootstrap is idempotent\<close>

text \<open>
  Claim C2, as amended.  Take a directory that exists and is empty, let \<^verbatim>\<open>os.Stat\<close> on
  the private-key file report no error of its own (so that it finds the file once it is
  there), and let a first \<open>prepareDir\<close> succeed.  The first
  run made the calls \<^verbatim>\<open>MkdirAll\<close>, \<^verbatim>\<open>Stat\<close>, \<^verbatim>\<open>GenerateKey\<close>, \<^verbatim>\<open>WriteFile\<close> (public key),
  \<^verbatim>\<open>WriteFile\<close> (private key) and no other, and both key files hold the pair it generated.
  A second \<open>prepareDir\<close> succeeds with the calls \<^verbatim>\<open>MkdirAll\<close> and \<^verbatim>\<open>Stat\<close> only.  The number
  of keys generated grows by one in the first run and not at all in the second, and the
  file tree after the second run is the tree after the first: both key files are
  byte-identical.
\<close>

theorem bootstrap_is_idempotent:
  fixes L :: "('s, 'p) libs"
  defines "priv \<equiv> \<lambda>dir. filepath_Join dir DevPodSSHPrivateKeyFile"
    and "pub \<equiv> \<lambda>dir. filepath_Join dir DevPodSSHPublicKeyFile"
  assumes empty: "empty_dir (fs w) dir"
    and stat: "fault w (Stat (priv dir)) = None"
    and first: "prepareDir L dir w = (None, w1)"
  shows "(\<exists>privateKey pubKey.
            trace w1 = trace w @ [MkdirAll dir (octal 7 5 5), Stat (priv dir), GenerateKey 2048,
                                  WriteFile (pub dir) pubKey (octal 6 4 4),
                                  WriteFile (priv dir) privateKey (octal 6 0 0)] \<and>
            fs w1 (pub dir) = Some (File pubKey (octal 6 4 4 AND NOT (umask w))) \<and>
            fs w1 (priv dir) = Some (File privateKey (octal 6 0 0 AND NOT (umask w)))) \<and>
         prepareDir L dir w1 =
           (None, w1\<lparr>trace := trace w1 @ [MkdirAll dir (octal 7 5 5), Stat (priv dir)]\<rparr>) \<and>
         generations (trace w1) = generations (trace w) + 1 \<and>
         generations (trace (snd (prepareDir L dir w1))) = generations (trace w1) \<and>
         fs (snd (prepareDir L dir w1)) = fs w1"
proof -
  from empty have exists: "dirs_exist (fs w) [] dir"
    and absent: "fs w (priv dir) = None" and no_pub: "fs w (pub dir) = None"
    by (simp_all add: empty_dir_def priv_def pub_def filepath_Join_def)
  from prepareDir_success_absent [OF first absent [unfolded priv_def]]
  obtain t privateKey pubKey where
    t: "mkdirs (octal 7 5 5 AND NOT (umask w)) [] dir (fs w) = Inr t" and
    w1: "w1 = w\<lparr>fs := t(filepath_Join dir DevPodSSHPublicKeyFile \<mapsto>
                      File pubKey (mode_after w (filepath_Join dir DevPodSSHPublicKeyFile) (octal 6 4 4)),
                    filepath_Join dir DevPodSSHPrivateKeyFile \<mapsto>
                      File privateKey (octal 6 0 0 AND NOT (umask w))),
             draws := Suc (draws w),
             trace := trace w @ [MkdirAll dir (octal 7 5 5),
                                 Stat (filepath_Join dir DevPodSSHPrivateKeyFile),
                                 GenerateKey 2048,
                                 WriteFile (filepath_Join dir DevPodSSHPublicKeyFile) pubKey (octal 6 4 4),
                                 WriteFile (filepath_Join dir DevPodSSHPrivateKeyFile) privateKey (octal 6 0 0)]\<rparr>"
    by blast
  have after: "trace w1 = trace w @ [MkdirAll dir (octal 7 5 5), Stat (priv dir), GenerateKey 2048,
                                  WriteFile (pub dir) pubKey (octal 6 4 4),
                                  WriteFile (priv dir) privateKey (octal 6 0 0)] \<and>
            fs w1 (pub dir) = Some (File pubKey (octal 6 4 4 AND NOT (umask w))) \<and>
            fs w1 (priv dir) = Some (File privateKey (octal 6 0 0 AND NOT (umask w)))"
    using no_pub key_files_differ [of dir] by (simp add: w1 priv_def pub_def mode_after_def)
  have "length ([] @ dir) < length (filepath_Join dir name)" for name
    by (simp add: filepath_Join_def)
  then have "dirs_exist (fs w1) [] dir"
    using mkdirs_then_exist [OF t] by (simp add: w1 dirs_exist_update)
  moreover have "fault w1 = fault w"
    by (simp add: w1)
  ultimately have second: "prepareDir L dir w1 =
      (None, w1\<lparr>trace := trace w1 @ [MkdirAll dir (octal 7 5 5), Stat (priv dir)]\<rparr>)"
    using after stat prepareDir_success_fault [OF first]
    by (simp add: prepareDir_present priv_def)
  have "generations (trace w1) = generations (trace w) + 1"
    using after by (simp add: generations_def)
  with after second show ?thesis
    by (simp add: generations_def)
qed

theorem bootstrap_is_idempotent_witness:
  "empty_dir (fs fresh_world) demo_dir \<and>
   fault fresh_world (Stat (filepath_Join demo_dir DevPodSSHPrivateKeyFile)) = None \<and>
   fst (prepareDir demo_libs demo_dir fresh_world) = None \<and>
   fst (prepareDir demo_libs demo_dir (snd (prepareDir demo_libs demo_dir fresh_world))) = None \<and>
   generations (trace (snd (prepareDir demo_libs demo_dir
       (snd (prepareDir demo_libs demo_dir fresh_world))))) = 1 \<and>
   fs (snd (prepareDir demo_libs demo_dir (snd (prepareDir demo_libs demo_dir fresh_world)))) =
     fs (snd (prepareDir demo_libs demo_dir fresh_world))"
proof -
  have h1: "empty_dir (fs fresh_world) demo_dir"
    by (simp add: empty_dir_def fresh_world_def empty_world_def demo_dir_def is_dir_def)
  have h2: "fault fresh_world (Stat (filepath_Join demo_dir DevPodSSHPrivateKeyFile)) = None"
    by (simp add: demo_defs)
  have h3: "prepareDir demo_libs demo_dir fresh_world =
      (None, snd (prepareDir demo_libs demo_dir fresh_world))"
    by (simp add: run_defs demo_defs)
  have h4: "fst (prepareDir demo_libs demo_dir fresh_world) = None"
    by (simp add: run_defs demo_defs)
  have "generations (trace fresh_world) = 0"
    by (simp add: generations_def demo_defs)
  with bootstrap_is_idempotent [OF h1 h2 h3] h1 h2 h4 show ?thesis
    by (simp add: generations_def)
qed

text \<open>
  The claim as it was worded, for every initially empty directory, fails: \<open>prepareDir\<close>
  takes every error of \<^verbatim>\<open>os.Stat\<close> for the absence of the private-key file.  Where
  \<^verbatim>\<open>os.Stat\<close> keeps failing, both invocations succeed, both generate a key pair, and the
  second replaces the key files of the first.
\<close>

theorem bootstrap_twice_regenerates:
  "empty_dir (fs forgetful_world) demo_dir \<and>
   fst (prepareDir demo_libs demo_dir forgetful_world) = None \<and>
   fst (prepareDir demo_libs demo_dir (snd (prepareDir demo_libs demo_dir forgetful_world))) = None \<and>
   generations (trace (snd (prepareDir demo_libs demo_dir forgetful_world))) = 1 \<and>
   generations (trace (snd (prepareDir demo_libs demo_dir
       (snd (prepareDir demo_libs demo_dir forgetful_world))))) = 2 \<and>
   fs (snd (prepareDir demo_libs demo_dir forgetful_world))
       (filepath_Join demo_dir DevPodSSHPrivateKeyFile) =
     Some (File ''RSA PRIVATE KEY:der-A'' (octal 6 0 0)) \<and>
   fs (snd (prepareDir demo_libs demo_dir (snd (prepareDir demo_libs demo_dir forgetful_world))))
       (filepath_Join demo_dir DevPodSSHPrivateKeyFile) =
     Some (File ''RSA PRIVATE KEY:der-B'' (octal 6 0 0)) \<and>
   fs (snd (prepareDir demo_libs demo_dir forgetful_world))
       (filepath_Join demo_dir DevPodSSHPublicKeyFile) =
     Some (File ''ssh-rsa A'' (octal 6 4 4)) \<and>
   fs (snd (prepareDir demo_libs demo_dir (snd (prepareDir demo_libs demo_dir forgetful_world))))
       (filepath_Join demo_dir DevPodSSHPublicKeyFile) =
     Some (File ''ssh-rsa B'' (octal 6 4 4))"
proof -
  have "empty_dir (fs forgetful_world) demo_dir"
    by (simp add: empty_dir_def forgetful_world_def fresh_world_def empty_world_def demo_dir_def
        is_dir_def)
  then show ?thesis
    by (simp add: run_defs demo_defs generations_def)
qed

section \<open>The delete command\<close>

text \<open>
  Claim C3.  If loading the configuration fails, the command returns that error and the
  cloud has seen nothing: no client is opened.  With a configuration loaded and a client
  opened for its \<open>{project, zone}\<close>, the command returns what the \<^verbatim>\<open>Delete\<close> call returned
  (an error verbatim, or none), and the record shows the opening of the client for the
  configured project and zone, one \<^verbatim>\<open>Delete\<close> call with the configured machine id on that
  client, and the closing of the client; the compute-API calls of the run are that one
  \<^verbatim>\<open>Delete\<close>, whether it failed or not.  (If the client cannot be opened, the command
  returns that error and makes no compute-API call.)
\<close>

theorem delete_command_makes_one_call:
  "(\<forall>err. RunE (Inl err) c = (Some err, c)) \<and>
   (open_error c (Project options) (Zone options) = None \<longrightarrow>
      fst (RunE (Inr options) c) =
        call_error c \<lparr>clientProject = Project options, clientZone = Zone options\<rparr> Delete (MachineID options) \<and>
      events (snd (RunE (Inr options) c)) =
        events c @ [Open (Project options) (Zone options),
                    Call \<lparr>clientProject = Project options, clientZone = Zone options\<rparr> Delete (MachineID options),
                    Close \<lparr>clientProject = Project options, clientZone = Zone options\<rparr>] \<and>
      api_calls (events (snd (RunE (Inr options) c))) =
        api_calls (events c) @
          [Call \<lparr>clientProject = Project options, clientZone = Zone options\<rparr> Delete (MachineID options)]) \<and>
   (\<forall>err. open_error c (Project options) (Zone options) = Some err \<longrightarrow>
      RunE (Inr options) c = (Some err, c\<lparr>events := events c @ [Open (Project options) (Zone options)]\<rparr>))"
  by (simp add: RunE_def Run_def gcloud_NewClient_def Client_Delete_def Client_Close_def api_calls_def)

theorem delete_command_makes_one_call_witness:
  "open_error failing_cloud (Project demo_options) (Zone demo_options) = None \<and>
   fst (RunE (Inr demo_options) failing_cloud) = Some (ErrorString ''googleapi: Error 404'') \<and>
   fst (RunE (Inr demo_options) quiet_cloud) = None \<and>
   api_calls (events (snd (RunE (Inr demo_options) failing_cloud))) =
     [Call \<lparr>clientProject = ''proj'', clientZone = ''europe-west1-b''\<rparr> Delete ''devpod-1''] \<and>
   api_calls (events (snd (RunE (Inr demo_options) quiet_cloud))) =
     [Call \<lparr>clientProject = ''proj'', clientZone = ''europe-west1-b''\<rparr> Delete ''devpod-1''] \<and>
   open_error closed_cloud (Project demo_options) (Zone demo_options) =
     Some (ErrorString ''could not find default credentials'') \<and>
   fst (RunE (Inr demo_options) closed_cloud) = Some (ErrorString ''could not find default credentials'') \<and>
   api_calls (events (snd (RunE (Inr demo_options) closed_cloud))) = [] \<and>
   RunE (Inl (ErrorString ''project is not set'')) quiet_cloud =
     (Some (ErrorString ''project is not set''), quiet_cloud)"
proof -
  have h: "open_error failing_cloud (Project demo_options) (Zone demo_options) = None"
    "open_error quiet_cloud (Project demo_options) (Zone demo_options) = None"
    "open_error closed_cloud (Project demo_options) (Zone demo_options) =
       Some (ErrorString ''could not find default credentials'')"
    by (simp_all add: failing_cloud_def quiet_cloud_def closed_cloud_def)
  have c: "call_error failing_cloud cl m n = Some (ErrorString ''googleapi: Error 404'')"
    "call_error quiet_cloud cl m n = None" for cl m n
    by (simp_all add: failing_cloud_def quiet_cloud_def)
  from delete_command_makes_one_call [of failing_cloud demo_options]
       delete_command_makes_one_call [of quiet_cloud demo_options]
       delete_command_makes_one_call [of closed_cloud demo_options] h
  show ?thesis
    by (simp add: c demo_options_def api_calls_def failing_cloud_def quiet_cloud_def closed_cloud_def)
qed

section \<open>Key bootstrap: permission modes\<close>

text \<open>
  Claim C4.  After a successful \<open>prepareDir\<close> on a directory with no private-key file, the
  calls made were: \<^verbatim>\<open>MkdirAll\<close> of the directory with mode 0755, the \<^verbatim>\<open>Stat\<close>, the key
  generation, \<^verbatim>\<open>WriteFile\<close> of the public-key file with mode 0644 and \<^verbatim>\<open>WriteFile\<close> of the
  private-key file with mode 0600, in this order.  In the tree (the operating system
  applies the umask to a mode it is given): the private-key file, which is new, has mode
  0600 less the umask; the public-key file, if it did not exist, has mode 0644 less the
  umask; the directory, if it did not exist, has mode 0755 less the umask.
\<close>

theorem bootstrap_permission_modes:
  fixes L :: "('s, 'p) libs"
  defines "priv \<equiv> \<lambda>dir. filepath_Join dir DevPodSSHPrivateKeyFile"
    and "pub \<equiv> \<lambda>dir. filepath_Join dir DevPodSSHPublicKeyFile"
  assumes absent: "fs w (priv dir) = None"
    and ok: "prepareDir L dir w = (None, w')"
  shows "\<exists>privateKey pubKey.
           trace w' = trace w @ [MkdirAll dir (octal 7 5 5), Stat (priv dir), GenerateKey 2048,
                                 WriteFile (pub dir) pubKey (octal 6 4 4),
                                 WriteFile (priv dir) privateKey (octal 6 0 0)] \<and>
           fs w' (priv dir) = Some (File privateKey (octal 6 0 0 AND NOT (umask w))) \<and>
           (fs w (pub dir) = None \<longrightarrow>
              fs w' (pub dir) = Some (File pubKey (octal 6 4 4 AND NOT (umask w)))) \<and>
           (dir \<noteq> [] \<and> fs w dir = None \<longrightarrow>
              fs w' dir = Some (Dir (octal 7 5 5 AND NOT (umask w))))"
proof -
  from prepareDir_success_absent [OF ok absent [unfolded priv_def]]
  obtain t privateKey pubKey where
    t: "mkdirs (octal 7 5 5 AND NOT (umask w)) [] dir (fs w) = Inr t" and
    w': "w' = w\<lparr>fs := t(filepath_Join dir DevPodSSHPublicKeyFile \<mapsto>
                      File pubKey (mode_after w (filepath_Join dir DevPodSSHPublicKeyFile) (octal 6 4 4)),
                    filepath_Join dir DevPodSSHPrivateKeyFile \<mapsto>
                      File privateKey (octal 6 0 0 AND NOT (umask w))),
             draws := Suc (draws w),
             trace := trace w @ [MkdirAll dir (octal 7 5 5),
                                 Stat (filepath_Join dir DevPodSSHPrivateKeyFile),
                                 GenerateKey 2048,
                                 WriteFile (filepath_Join dir DevPodSSHPublicKeyFile) pubKey (octal 6 4 4),
                                 WriteFile (filepath_Join dir DevPodSSHPrivateKeyFile) privateKey (octal 6 0 0)]\<rparr>"
    by blast
  have created: "dir \<noteq> [] \<Longrightarrow> fs w dir = None \<Longrightarrow> t dir = Some (Dir (octal 7 5 5 AND NOT (umask w)))"
    using mkdirs_created [OF t] by simp
  have names: "dir \<noteq> filepath_Join dir DevPodSSHPublicKeyFile" "dir \<noteq> filepath_Join dir DevPodSSHPrivateKeyFile"
    by (simp_all add: filepath_Join_def)
  have "trace w' = trace w @ [MkdirAll dir (octal 7 5 5), Stat (priv dir), GenerateKey 2048,
                                 WriteFile (pub dir) pubKey (octal 6 4 4),
                                 WriteFile (priv dir) privateKey (octal 6 0 0)] \<and>
           fs w' (priv dir) = Some (File privateKey (octal 6 0 0 AND NOT (umask w))) \<and>
           (fs w (pub dir) = None \<longrightarrow>
              fs w' (pub dir) = Some (File pubKey (octal 6 4 4 AND NOT (umask w)))) \<and>
           (dir \<noteq> [] \<and> fs w dir = None \<longrightarrow>
              fs w' dir = Some (Dir (octal 7 5 5 AND NOT (umask w))))"
    using created names key_files_differ [of dir]
    by (simp add: w' priv_def pub_def mode_after_def)
  then show ?thesis by - (intro exI)
qed

theorem bootstrap_permission_modes_witness:
  "fs empty_world (filepath_Join demo_dir DevPodSSHPrivateKeyFile) = None \<and>
   fst (prepareDir demo_libs demo_dir empty_world) = None \<and>
   umask empty_world = octal 0 2 2 \<and>
   fs (snd (prepareDir demo_libs demo_dir empty_world)) demo_dir = Some (Dir (octal 7 5 5)) \<and>
   fs (snd (prepareDir demo_libs demo_dir empty_world)) (filepath_Join demo_dir DevPodSSHPrivateKeyFile) =
     Some (File ''RSA PRIVATE KEY:der-A'' (octal 6 0 0)) \<and>
   fs (snd (prepareDir demo_libs demo_dir empty_world)) (filepath_Join demo_dir DevPodSSHPublicKeyFile) =
     Some (File ''ssh-rsa A'' (octal 6 4 4))"
proof -
  have h1: "fs empty_world (filepath_Join demo_dir DevPodSSHPrivateKeyFile) = None"
    by (simp add: empty_world_def)
  have h2: "prepareDir demo_libs demo_dir empty_world =
      (None, snd (prepareDir demo_libs demo_dir empty_world))"
    by (simp add: run_defs demo_defs)
  show ?thesis
    using bootstrap_permission_modes [OF h1 h2]
    by (simp add: run_defs demo_defs)
qed

section \<open>Retrieval runs the bootstrap first\<close>

text \<open>
  Claim C5.  \<open>GetPrivateKey\<close> and \<open>GetPublicKey\<close> run \<open>prepareDir\<close> first: the world they
  leave is the world \<open>prepareDir\<close> leaves, with the read of their file logged after it if
  \<open>prepareDir\<close> succeeded and nothing more if it failed.  In particular, for a directory
  that is missing (it can be created, the key generation succeeds and the writes and the
  read do not fail), either operation creates the directory with mode 0755 (less the
  umask), generates a key pair, writes both files and returns the content of its file
  as just generated: the private key from \<open>GetPrivateKey\<close>, the public key from
  \<open>GetPublicKey\<close>.
\<close>

theorem retrieval_runs_bootstrap_first:
  fixes L :: "('s, 'p) libs"
  defines "priv \<equiv> \<lambda>dir. filepath_Join dir DevPodSSHPrivateKeyFile"
    and "pub \<equiv> \<lambda>dir. filepath_Join dir DevPodSSHPublicKeyFile"
  assumes missing: "missing_dir (fs w) dir"
    and mk: "fst (os_MkdirAll dir (octal 7 5 5) w) = None"
    and gen: "fst (rsaKeyGen L w) = Inr (privateKey, pubKey)"
    and quiet: "fault w (WriteFile (pub dir) pubKey (octal 6 4 4)) = None"
               "fault w (WriteFile (priv dir) privateKey (octal 6 0 0)) = None"
               "fault w (ReadFile (priv dir)) = None"
               "fault w (ReadFile (pub dir)) = None"
  shows "(\<forall>v d. snd (GetPrivateKey L d v) =
            (if fst (prepareDir L d v) = None
             then (snd (prepareDir L d v))\<lparr>trace := trace (snd (prepareDir L d v)) @ [ReadFile (priv d)]\<rparr>
             else snd (prepareDir L d v))) \<and>
         (\<forall>v d. snd (GetPublicKey L d v) =
            (if fst (prepareDir L d v) = None
             then (snd (prepareDir L d v))\<lparr>trace := trace (snd (prepareDir L d v)) @ [ReadFile (pub d)]\<rparr>
             else snd (prepareDir L d v))) \<and>
         fst (GetPrivateKey L dir w) = Inr privateKey \<and>
         fst (GetPublicKey L dir w) = Inr pubKey \<and>
         fs (snd (GetPrivateKey L dir w)) dir = Some (Dir (octal 7 5 5 AND NOT (umask w))) \<and>
         fs (snd (GetPublicKey L dir w)) dir = Some (Dir (octal 7 5 5 AND NOT (umask w))) \<and>
         trace (snd (GetPrivateKey L dir w)) =
           trace w @ [MkdirAll dir (octal 7 5 5), Stat (priv dir), GenerateKey 2048,
                      WriteFile (pub dir) pubKey (octal 6 4 4),
                      WriteFile (priv dir) privateKey (octal 6 0 0), ReadFile (priv dir)] \<and>
         trace (snd (GetPublicKey L dir w)) =
           trace w @ [MkdirAll dir (octal 7 5 5), Stat (priv dir), GenerateKey 2048,
                      WriteFile (pub dir) pubKey (octal 6 4 4),
                      WriteFile (priv dir) privateKey (octal 6 0 0), ReadFile (pub dir)]"
proof -
  have order_priv: "snd (GetPrivateKey L d v) =
            (if fst (prepareDir L d v) = None
             then (snd (prepareDir L d v))\<lparr>trace := trace (snd (prepareDir L d v)) @ [ReadFile (priv d)]\<rparr>
             else snd (prepareDir L d v))" for v d
    using os_ReadFile_snd [of "priv d" "snd (prepareDir L d v)"]
    by (cases "prepareDir L d v")
       (auto simp: GetPrivateKey_def priv_def Let_def split: option.splits sum.splits prod.splits)
  have order_pub: "snd (GetPublicKey L d v) =
            (if fst (prepareDir L d v) = None
             then (snd (prepareDir L d v))\<lparr>trace := trace (snd (prepareDir L d v)) @ [ReadFile (pub d)]\<rparr>
             else snd (prepareDir L d v))" for v d
    using os_ReadFile_snd [of "pub d" "snd (prepareDir L d v)"]
    by (cases "prepareDir L d v")
       (auto simp: GetPublicKey_def pub_def Let_def split: option.splits sum.splits prod.splits)
  from missing have nonroot: "dir \<noteq> []" and nodir: "fs w dir = None"
    and absent: "fs w (priv dir) = None" and no_pub: "fs w (pub dir) = None"
    using missing_dir_def [of "fs w" dir]
    by (simp_all add: priv_def pub_def filepath_Join_def) (metis append_Nil2)
  from os_MkdirAll_NoneD [OF mk] obtain t where
    nonempty: "dir \<noteq> []" and
    nofault: "fault w (MkdirAll dir (octal 7 5 5)) = None" and
    t: "mkdirs (octal 7 5 5 AND NOT (umask w)) [] dir (fs w) = Inr t"
    by blast
  note run = prepareDir_generate [OF nonempty nofault t absent [unfolded priv_def], of L]
  have tree: "t (pub dir) = None" "t (priv dir) = None" "is_dir t dir"
    "t dir = Some (Dir (octal 7 5 5 AND NOT (umask w)))"
    using mkdirs_key_file [OF t] mkdirs_is_dir [OF t] mkdirs_created [OF t] absent no_pub nonroot nodir
    by (simp_all add: priv_def pub_def)
  have names: "dir \<noteq> pub dir" "dir \<noteq> priv dir"
    by (simp_all add: filepath_Join_def priv_def pub_def)
  have boot: "prepareDir L dir w =
      (None, w\<lparr>fs := t(pub dir \<mapsto> File pubKey (octal 6 4 4 AND NOT (umask w)),
                      priv dir \<mapsto> File privateKey (octal 6 0 0 AND NOT (umask w))),
               draws := Suc (draws w),
               trace := trace w @ [MkdirAll dir (octal 7 5 5), Stat (priv dir), GenerateKey 2048,
                                   WriteFile (pub dir) pubKey (octal 6 4 4),
                                   WriteFile (priv dir) privateKey (octal 6 0 0)]\<rparr>)"
    using gen tree quiet names key_files_differ [of dir]
    unfolding run Let_def
    by (simp add: os_WriteFile_def open_errno_def mode_after_def Let_def priv_def pub_def butlast_Join
          is_dir_def Join_not_root)
  have "fst (GetPrivateKey L dir w) = Inr privateKey \<and>
        fs (snd (GetPrivateKey L dir w)) dir = Some (Dir (octal 7 5 5 AND NOT (umask w))) \<and>
        trace (snd (GetPrivateKey L dir w)) =
           trace w @ [MkdirAll dir (octal 7 5 5), Stat (priv dir), GenerateKey 2048,
                      WriteFile (pub dir) pubKey (octal 6 4 4),
                      WriteFile (priv dir) privateKey (octal 6 0 0), ReadFile (priv dir)]"
    using quiet tree names key_files_differ [of dir]
    by (simp add: GetPrivateKey_def boot [unfolded priv_def pub_def] os_ReadFile_def Let_def priv_def pub_def)
  moreover have "fst (GetPublicKey L dir w) = Inr pubKey \<and>
        fs (snd (GetPublicKey L dir w)) dir = Some (Dir (octal 7 5 5 AND NOT (umask w))) \<and>
        trace (snd (GetPublicKey L dir w)) =
           trace w @ [MkdirAll dir (octal 7 5 5), Stat (priv dir), GenerateKey 2048,
                      WriteFile (pub dir) pubKey (octal 6 4 4),
                      WriteFile (priv dir) privateKey (octal 6 0 0), ReadFile (pub dir)]"
    using quiet tree names key_files_differ [of dir]
    by (simp add: GetPublicKey_def boot [unfolded priv_def pub_def] os_ReadFile_def Let_def priv_def pub_def)
  ultimately show ?thesis
    using order_priv order_pub by simp
qed

theorem retrieval_runs_bootstrap_first_witness:
  "missing_dir (fs empty_world) demo_dir \<and>
   fst (os_MkdirAll demo_dir (octal 7 5 5) empty_world) = None \<and>
   fst (rsaKeyGen demo_libs empty_world) = Inr (''RSA PRIVATE KEY:der-A'', ''ssh-rsa A'') \<and>
   (\<forall>c. fault empty_world c = None) \<and>
   fst (GetPrivateKey demo_libs demo_dir empty_world) = Inr ''RSA PRIVATE KEY:der-A'' \<and>
   fst (GetPublicKey demo_libs demo_dir empty_world) = Inr ''ssh-rsa A'' \<and>
   fs (snd (GetPrivateKey demo_libs demo_dir empty_world)) demo_dir = Some (Dir (octal 7 5 5)) \<and>
   fs (snd (GetPublicKey demo_libs demo_dir empty_world)) demo_dir = Some (Dir (octal 7 5 5))"
proof -
  have h1: "missing_dir (fs empty_world) demo_dir"
    by (simp add: missing_dir_def demo_defs)
  have h2: "fst (os_MkdirAll demo_dir (octal 7 5 5) empty_world) = None"
    by (simp add: run_defs demo_defs)
  have h3: "fst (rsaKeyGen demo_libs empty_world) = Inr (''RSA PRIVATE KEY:der-A'', ''ssh-rsa A'')"
    by (simp add: run_defs demo_defs)
  have h4: "fault empty_world c = None" for c
    by (simp add: demo_defs)
  have m: "octal 7 5 5 AND NOT (umask empty_world) = octal 7 5 5"
    by (simp add: octal_def demo_defs)
  have "fst (GetPrivateKey demo_libs demo_dir empty_world) = Inr ''RSA PRIVATE KEY:der-A'' \<and>
        fst (GetPublicKey demo_libs demo_dir empty_world) = Inr ''ssh-rsa A'' \<and>
        fs (snd (GetPrivateKey demo_libs demo_dir empty_world)) demo_dir =
          Some (Dir (octal 7 5 5 AND NOT (umask empty_world))) \<and>
        fs (snd (GetPublicKey demo_libs demo_dir empty_world)) demo_dir =
          Some (Dir (octal 7 5 5 AND NOT (umask empty_world)))"
    using retrieval_runs_bootstrap_first [OF h1 h2 h3 h4 h4 h4 h4]
    by (elim conjE, intro conjI) assumption+
  with h1 h2 h3 h4 show ?thesis
    by (simp add: m)
qed

section \<open>The client configuration\<close>

text \<open>
  Claim C6.  For key bytes that parse as a private key, \<open>ConfigFromKeyBytes\<close> returns a
  configuration whose user is the fixed name \<^verbatim>\<open>devpod\<close>, whose only authentication method is
  public-key authentication with the signer parsed from the key bytes, and whose host-key
  callback returns no error for any host name, remote address and host key: the host is
  never verified.  \<open>NewClient\<close> dials with exactly this configuration.
\<close>

theorem client_config_ignores_host_key:
  fixes L :: "('s, 'p) libs"
  assumes "ssh_ParsePrivateKey L keyBytes = Inr signer"
  shows "\<exists>cfg. ConfigFromKeyBytes L keyBytes = Inr cfg \<and>
           User cfg = ''devpod'' \<and>
           Auth cfg = [PublicKeys [signer]] \<and>
           (\<forall>hostname remote key. HostKeyCallback cfg hostname remote key = None) \<and>
           (\<forall>ssh_Dial addr. NewClient L ssh_Dial addr keyBytes =
              (case ssh_Dial ''tcp'' addr cfg of
                 Inl err \<Rightarrow> Inl (ErrorString (''dial to '' @ addr @ '' failed: '' @ Error err))
               | Inr (client :: 'c) \<Rightarrow> Inr client))"
  using assms
  by (simp add: ConfigFromKeyBytes_def NewClient_def ssh_InsecureIgnoreHostKey_def)

theorem client_config_ignores_host_key_witness:
  "ssh_ParsePrivateKey demo_libs ''RSA PRIVATE KEY:der-A'' = Inr demo_key \<and>
   (\<exists>cfg. ConfigFromKeyBytes demo_libs ''RSA PRIVATE KEY:der-A'' = Inr cfg \<and>
      User cfg = ''devpod'' \<and> Auth cfg = [PublicKeys [demo_key]] \<and>
      HostKeyCallback cfg ''host'' ''10.0.0.1:22'' \<lparr>N = 1, E = 1\<rparr> = None)"
proof -
  have h: "ssh_ParsePrivateKey demo_libs ''RSA PRIVATE KEY:der-A'' = Inr demo_key"
    by (simp add: demo_libs_def)
  from client_config_ignores_host_key [OF h, where 'c = unit] obtain cfg where
    "ConfigFromKeyBytes demo_libs ''RSA PRIVATE KEY:der-A'' = Inr cfg"
    "User cfg = ''devpod''" "Auth cfg = [PublicKeys [demo_key]]"
    "\<forall>hostname remote key. HostKeyCallback cfg hostname remote key = None"
    by blast
  with h show ?thesis by blast
qed

section \<open>A generated key pair round-trips\<close>

text \<open>
  Claim C7.  Let \<open>rsaKeyGen\<close> succeed with a private-key string and a public-key string,
  and let the libraries keep their promise for the key drawn (\<open>codec_roundtrip\<close>).  Then the
  private-key string parses to a signer, and the authorized-key encoding of that signer's
  public key is the public-key string, exactly.
\<close>

theorem generated_key_pair_round_trips:
  fixes L :: "('s, 'p) libs"
  assumes gen: "rsaKeyGen L w = (Inr (privateKey, publicKey), w')"
    and libs: "\<forall>k. keygen w (draws w) = Inr k \<longrightarrow> codec_roundtrip L k"
  shows "\<exists>signer. ssh_ParsePrivateKey L privateKey = Inr signer \<and>
           ssh_MarshalAuthorizedKey L (Signer_PublicKey L signer) = publicKey"
proof -
  from gen obtain k where k: "keygen w (draws w) = Inr k"
    by (cases "keygen w (draws w)") (auto simp: rsaKeyGen_def rsa_GenerateKey_def)
  with gen obtain p where p: "ssh_NewPublicKey L (Public k) = Inr p"
    and priv: "privateKey = pem_EncodeToMemory L
        \<lparr>Type = ''RSA PRIVATE KEY'', Bytes = x509_MarshalPKCS1PrivateKey L k\<rparr>"
    and pub: "publicKey = ssh_MarshalAuthorizedKey L p"
    by (cases "ssh_NewPublicKey L (Public k)")
       (auto simp: rsaKeyGen_def rsa_GenerateKey_def generateKeys_def Let_def)
  from libs k have "codec_roundtrip L k" by simp
  then obtain signer where
    "ssh_ParsePrivateKey L privateKey = Inr signer" "Signer_PublicKey L signer = p"
    using p priv by (auto simp: codec_roundtrip_def)
  with pub show ?thesis by simp
qed

theorem generated_key_pair_round_trips_witness:
  "rsaKeyGen demo_libs empty_world =
     (Inr (''RSA PRIVATE KEY:der-A'', ''ssh-rsa A''), snd (rsaKeyGen demo_libs empty_world)) \<and>
   codec_roundtrip demo_libs demo_key \<and>
   (\<exists>signer. ssh_ParsePrivateKey demo_libs ''RSA PRIVATE KEY:der-A'' = Inr signer \<and>
      ssh_MarshalAuthorizedKey demo_libs (Signer_PublicKey demo_libs signer) = ''ssh-rsa A'')"
proof -
  have h1: "rsaKeyGen demo_libs empty_world =
     (Inr (''RSA PRIVATE KEY:der-A'', ''ssh-rsa A''), snd (rsaKeyGen demo_libs empty_world))"
    by (simp add: rsaKeyGen_def rsa_GenerateKey_def generateKeys_def demo_libs_def empty_world_def Public_def)
  have c: "codec_roundtrip demo_libs demo_key"
    by (simp add: codec_roundtrip_def demo_libs_def Public_def)
  then have h2: "\<forall>k. keygen empty_world (draws empty_world) = Inr k \<longrightarrow> codec_roundtrip demo_libs k"
    by (simp add: empty_world_def)
  from generated_key_pair_round_trips [OF h1 h2] h1 c show ?thesis
    by blast
qed

section \<open>Stage labels of bootstrap failures\<close>

text \<open>
  Claim C8.  Every failure of the key bootstrap is to come back wrapped by a label that
  identifies the failing stage; a private-key read failure in \<open>GetPrivateKey\<close> by a label
  for the private-key read.  What the program does at two inputs: where the key files
  cannot be opened, \<open>GetPrivateKey\<close> returns the failed read of the private-key file under
  the label \<^verbatim>\<open>read public ssh key\<close>, the very label \<open>GetPublicKey\<close> gives to the failed
  read of the public-key file; where the directory cannot be created, \<open>prepareDir\<close>
  returns the error of \<^verbatim>\<open>os.MkdirAll\<close> as it is, under no label.
\<close>

theorem read_failure_label_names_public_key:
  "fst (GetPrivateKey demo_libs demo_dir unreadable_world) =
     Inl (Wrap (PathError ''open'' [''home'', ''ssh'', ''id_devpod_rsa''] EACCES) ''read public ssh key'') \<and>
   fst (GetPublicKey demo_libs demo_dir unreadable_world) =
     Inl (Wrap (PathError ''open'' [''home'', ''ssh'', ''id_devpod_rsa.pub''] EACCES) ''read public ssh key'') \<and>
   fst (prepareDir demo_libs demo_dir blocked_world) =
     Some (PathError ''mkdir'' [''home''] ENOTDIR) \<and>
   stage_label (PathError ''mkdir'' [''home''] ENOTDIR) = None"
  by (simp add: GetPrivateKey_def GetPublicKey_def prepareDir_def os_MkdirAll_def os_Stat_def
      os_ReadFile_def filepath_Join_def DevPodSSHPrivateKeyFile_def DevPodSSHPublicKeyFile_def
      is_dir_def octal_def Let_def demo_dir_def unreadable_world_def keyed_world_def
      blocked_world_def empty_world_def)

section \<open>Key bootstrap: a public key without its private key\<close>

text \<open>
  Claim C9.  Take a directory with a public-key file but no private-key file, where the
  directory call succeeds, the key generation succeeds and the write of the public-key
  file does not fail.  Then \<open>prepareDir\<close> draws a fresh key from the key source and the
  public-key file holds the new public key afterwards, whatever it held before (its
  permissions stay as they were): only the private-key file is looked for.
\<close>

theorem stale_public_key_is_overwritten:
  fixes L :: "('s, 'p) libs"
  defines "priv \<equiv> \<lambda>dir. filepath_Join dir DevPodSSHPrivateKeyFile"
    and "pub \<equiv> \<lambda>dir. filepath_Join dir DevPodSSHPublicKeyFile"
  assumes absent: "fs w (priv dir) = None"
    and present: "fs w (pub dir) = Some (File old m)"
    and mk: "fst (os_MkdirAll dir (octal 7 5 5) w) = None"
    and gen: "fst (rsaKeyGen L w) = Inr (privateKey, pubKey)"
    and pub_ok: "fault w (WriteFile (pub dir) pubKey (octal 6 4 4)) = None"
  shows "fs (snd (prepareDir L dir w)) (pub dir) = Some (File pubKey m) \<and>
         draws (snd (prepareDir L dir w)) = Suc (draws w) \<and>
         (\<exists>rest. trace (snd (prepareDir L dir w)) =
            trace w @ [MkdirAll dir (octal 7 5 5), Stat (priv dir), GenerateKey 2048,
                       WriteFile (pub dir) pubKey (octal 6 4 4)] @ rest)"
proof -
  from os_MkdirAll_NoneD [OF mk] obtain t where
    nonempty: "dir \<noteq> []" and
    nofault: "fault w (MkdirAll dir (octal 7 5 5)) = None" and
    t: "mkdirs (octal 7 5 5 AND NOT (umask w)) [] dir (fs w) = Inr t"
    by blast
  note run = prepareDir_generate [OF nonempty nofault t absent [unfolded priv_def], of L]
  have tree: "t (pub dir) = Some (File old m)" "t (priv dir) = None" "is_dir t dir"
    using mkdirs_key_file [OF t] mkdirs_is_dir [OF t] absent present by (simp_all add: priv_def pub_def)
  let ?w3 = "w\<lparr>fs := t, draws := Suc (draws w),
                trace := trace w @ [MkdirAll dir (octal 7 5 5), Stat (priv dir), GenerateKey 2048]\<rparr>"
  let ?w4 = "?w3\<lparr>trace := trace ?w3 @ [WriteFile (pub dir) pubKey (octal 6 4 4)],
                fs := t(pub dir \<mapsto> File pubKey m)\<rparr>"
  let ?second = "os_WriteFile (priv dir) privateKey (octal 6 0 0) ?w4"
  have first: "os_WriteFile (pub dir) pubKey (octal 6 4 4) ?w3 = (None, ?w4)"
    using tree pub_ok
    by (simp add: os_WriteFile_def open_errno_def mode_after_def Let_def pub_def butlast_Join
          is_dir_Join Join_not_root)
  have "snd (prepareDir L dir w) = snd ?second"
    using first gen
    by (cases ?second) (auto simp: run [unfolded Let_def] priv_def pub_def split: option.splits)
  moreover have "pub dir \<noteq> priv dir"
    using key_files_differ [of dir] by (simp add: priv_def pub_def)
  ultimately show ?thesis
    by (simp add: os_WriteFile_other os_WriteFile_draws os_WriteFile_trace)
qed

theorem stale_public_key_is_overwritten_witness:
  "fs stale_world (filepath_Join demo_dir DevPodSSHPrivateKeyFile) = None \<and>
   fs stale_world (filepath_Join demo_dir DevPodSSHPublicKeyFile) = Some (File ''ssh-rsa old'' (octal 6 0 0)) \<and>
   fst (os_MkdirAll demo_dir (octal 7 5 5) stale_world) = None \<and>
   fst (rsaKeyGen demo_libs stale_world) = Inr (''RSA PRIVATE KEY:der-A'', ''ssh-rsa A'') \<and>
   fault stale_world (WriteFile (filepath_Join demo_dir DevPodSSHPublicKeyFile) ''ssh-rsa A'' (octal 6 4 4)) = None \<and>
   fs (snd (prepareDir demo_libs demo_dir stale_world)) (filepath_Join demo_dir DevPodSSHPublicKeyFile) =
     Some (File ''ssh-rsa A'' (octal 6 0 0))"
proof -
  have h1: "fs stale_world (filepath_Join demo_dir DevPodSSHPrivateKeyFile) = None"
    by (simp add: run_defs demo_defs)
  have h2: "fs stale_world (filepath_Join demo_dir DevPodSSHPublicKeyFile) = Some (File ''ssh-rsa old'' (octal 6 0 0))"
    by (simp add: run_defs demo_defs)
  have h3: "fst (os_MkdirAll demo_dir (octal 7 5 5) stale_world) = None"
    by (simp add: run_defs demo_defs)
  have h4: "fst (rsaKeyGen demo_libs stale_world) = Inr (''RSA PRIVATE KEY:der-A'', ''ssh-rsa A'')"
    by (simp add: run_defs demo_defs)
  have h5: "fault stale_world (WriteFile (filepath_Join demo_dir DevPodSSHPublicKeyFile) ''ssh-rsa A'' (octal 6 4 4)) = None"
    by (simp add: demo_defs)
  show ?thesis
    using stale_public_key_is_overwritten [OF h1 h2 h3 h4 h5] h1 h2 h3 h4 h5 by simp
qed

section \<open>Key bootstrap is not atomic\<close>

text \<open>
  Claim C10, as amended.  The public-key file is written before the private-key file.
  Take a directory with no private-key file where the directory call and the key
  generation succeed and the public-key file is written, but the write of the
  private-key file fails.  Then \<open>prepareDir\<close> returns that failure under the label
  \<^verbatim>\<open>write private ssh key\<close>, and the directory is left with the newly written public-key
  file.  What is left of the private-key file depends on where its write failed: no file
  if the open failed; a file with the bytes written so far, possibly none, if the write
  failed; the whole file if the close failed.
\<close>

theorem private_write_failure_leaves_public_key:
  fixes L :: "('s, 'p) libs"
  defines "priv \<equiv> \<lambda>dir. filepath_Join dir DevPodSSHPrivateKeyFile"
    and "pub \<equiv> \<lambda>dir. filepath_Join dir DevPodSSHPublicKeyFile"
  assumes absent: "fs w (priv dir) = None"
    and mk: "fst (os_MkdirAll dir (octal 7 5 5) w) = None"
    and gen: "fst (rsaKeyGen L w) = Inr (privateKey, pubKey)"
    and pub_ok: "fault w (WriteFile (pub dir) pubKey (octal 6 4 4)) = None"
                "\<not> is_dir (fs w) (pub dir)"
    and priv_fails: "fault w (WriteFile (priv dir) privateKey (octal 6 0 0)) = Some f"
  shows "fst (prepareDir L dir w) =
           Some (Wrap (case f of
                         Fails e \<Rightarrow> PathError ''open'' (priv dir) e
                       | FailsMidway e n \<Rightarrow> PathError ''write'' (priv dir) e
                       | FailsClosing e \<Rightarrow> PathError ''close'' (priv dir) e)
                   ''write private ssh key'') \<and>
         fs (snd (prepareDir L dir w)) (pub dir) =
           Some (File pubKey (mode_after w (pub dir) (octal 6 4 4))) \<and>
         fs (snd (prepareDir L dir w)) (priv dir) =
           (case f of
              Fails e \<Rightarrow> None
            | FailsMidway e n \<Rightarrow> Some (File (take n privateKey) (octal 6 0 0 AND NOT (umask w)))
            | FailsClosing e \<Rightarrow> Some (File privateKey (octal 6 0 0 AND NOT (umask w)))) \<and>
         trace (snd (prepareDir L dir w)) =
           trace w @ [MkdirAll dir (octal 7 5 5), Stat (priv dir), GenerateKey 2048,
                      WriteFile (pub dir) pubKey (octal 6 4 4),
                      WriteFile (priv dir) privateKey (octal 6 0 0)]"
proof -
  from os_MkdirAll_NoneD [OF mk] obtain t where
    nonempty: "dir \<noteq> []" and
    nofault: "fault w (MkdirAll dir (octal 7 5 5)) = None" and
    t: "mkdirs (octal 7 5 5 AND NOT (umask w)) [] dir (fs w) = Inr t"
    by blast
  note run = prepareDir_generate [OF nonempty nofault t absent [unfolded priv_def], of L]
  have tree: "t (pub dir) = fs w (pub dir)" "t (priv dir) = None" "is_dir t dir"
    using mkdirs_key_file [OF t] mkdirs_is_dir [OF t] absent by (simp_all add: priv_def pub_def)
  have names: "dir \<noteq> pub dir" "dir \<noteq> priv dir" "pub dir \<noteq> priv dir"
    using key_files_differ [of dir] by (simp_all add: filepath_Join_def priv_def pub_def)
  let ?w3 = "w\<lparr>fs := t, draws := Suc (draws w),
                trace := trace w @ [MkdirAll dir (octal 7 5 5), Stat (priv dir), GenerateKey 2048]\<rparr>"
  let ?w4 = "?w3\<lparr>trace := trace ?w3 @ [WriteFile (pub dir) pubKey (octal 6 4 4)],
                fs := t(pub dir \<mapsto> File pubKey (mode_after w (pub dir) (octal 6 4 4)))\<rparr>"
  have first: "os_WriteFile (pub dir) pubKey (octal 6 4 4) ?w3 = (None, ?w4)"
    using tree pub_ok
    by (simp add: os_WriteFile_def open_errno_def mode_after_def Let_def pub_def butlast_Join
          is_dir_Join Join_not_root cong: option.case_cong node.case_cong)
  have parent: "is_dir (fs ?w4) (butlast (priv dir))" and new: "\<not> is_dir (fs ?w4) (priv dir)"
    and none: "fs ?w4 (priv dir) = None"
    using tree names by (simp_all add: priv_def butlast_Join is_dir_Join) (simp add: is_dir_def)
  have second: "os_WriteFile (priv dir) privateKey (octal 6 0 0) ?w4 =
      (Some (case f of
               Fails e \<Rightarrow> PathError ''open'' (priv dir) e
             | FailsMidway e n \<Rightarrow> PathError ''write'' (priv dir) e
             | FailsClosing e \<Rightarrow> PathError ''close'' (priv dir) e),
       ?w4\<lparr>trace := trace ?w4 @ [WriteFile (priv dir) privateKey (octal 6 0 0)],
            fs := (case f of
                     Fails e \<Rightarrow> fs ?w4
                   | FailsMidway e n \<Rightarrow>
                       (fs ?w4)(priv dir \<mapsto> File (take n privateKey) (octal 6 0 0 AND NOT (umask w)))
                   | FailsClosing e \<Rightarrow>
                       (fs ?w4)(priv dir \<mapsto> File privateKey (octal 6 0 0 AND NOT (umask w))))\<rparr>)"
    using parent new none priv_fails Join_not_root [of dir DevPodSSHPrivateKeyFile]
    by (cases f) (simp_all add: os_WriteFile_def open_errno_def mode_after_def Let_def priv_def)
  have "prepareDir L dir w =
      (Some (Wrap (case f of
                     Fails e \<Rightarrow> PathError ''open'' (priv dir) e
                   | FailsMidway e n \<Rightarrow> PathError ''write'' (priv dir) e
                   | FailsClosing e \<Rightarrow> PathError ''close'' (priv dir) e)
               ''write private ssh key''),
       ?w4\<lparr>trace := trace ?w4 @ [WriteFile (priv dir) privateKey (octal 6 0 0)],
            fs := (case f of
                     Fails e \<Rightarrow> fs ?w4
                   | FailsMidway e n \<Rightarrow>
                       (fs ?w4)(priv dir \<mapsto> File (take n privateKey) (octal 6 0 0 AND NOT (umask w)))
                   | FailsClosing e \<Rightarrow>
                       (fs ?w4)(priv dir \<mapsto> File privateKey (octal 6 0 0 AND NOT (umask w))))\<rparr>)"
    using first second gen
    by (simp add: run [unfolded Let_def] priv_def pub_def)
  then show ?thesis
    using tree names by (cases f) (simp_all add: priv_def pub_def)
qed

theorem private_write_failure_leaves_public_key_witness:
  "fs readonly_world (filepath_Join demo_dir DevPodSSHPrivateKeyFile) = None \<and>
   fst (os_MkdirAll demo_dir (octal 7 5 5) readonly_world) = None \<and>
   fst (rsaKeyGen demo_libs readonly_world) = Inr (''RSA PRIVATE KEY:der-A'', ''ssh-rsa A'') \<and>
   fault readonly_world (WriteFile (filepath_Join demo_dir DevPodSSHPublicKeyFile) ''ssh-rsa A'' (octal 6 4 4)) = None \<and>
   \<not> is_dir (fs readonly_world) (filepath_Join demo_dir DevPodSSHPublicKeyFile) \<and>
   fault readonly_world (WriteFile (filepath_Join demo_dir DevPodSSHPrivateKeyFile) ''RSA PRIVATE KEY:der-A'' (octal 6 0 0)) =
     Some (Fails EACCES) \<and>
   fst (prepareDir demo_libs demo_dir readonly_world) =
     Some (Wrap (PathError ''open'' (filepath_Join demo_dir DevPodSSHPrivateKeyFile) EACCES)
             ''write private ssh key'') \<and>
   fs (snd (prepareDir demo_libs demo_dir readonly_world)) (filepath_Join demo_dir DevPodSSHPublicKeyFile) =
     Some (File ''ssh-rsa A'' (octal 6 0 0)) \<and>
   fs (snd (prepareDir demo_libs demo_dir readonly_world)) (filepath_Join demo_dir DevPodSSHPrivateKeyFile) = None"
proof -
  have h1: "fs readonly_world (filepath_Join demo_dir DevPodSSHPrivateKeyFile) = None"
    by (simp add: run_defs demo_defs)
  have h2: "fst (os_MkdirAll demo_dir (octal 7 5 5) readonly_world) = None"
    by (simp add: run_defs demo_defs)
  have h3: "fst (rsaKeyGen demo_libs readonly_world) = Inr (''RSA PRIVATE KEY:der-A'', ''ssh-rsa A'')"
    by (simp add: run_defs demo_defs)
  have h4: "fault readonly_world (WriteFile (filepath_Join demo_dir DevPodSSHPublicKeyFile) ''ssh-rsa A'' (octal 6 4 4)) = None"
    by (simp add: run_defs demo_defs)
  have h5: "\<not> is_dir (fs readonly_world) (filepath_Join demo_dir DevPodSSHPublicKeyFile)"
    by (simp add: run_defs demo_defs)
  have h6: "fault readonly_world (WriteFile (filepath_Join demo_dir DevPodSSHPrivateKeyFile) ''RSA PRIVATE KEY:der-A'' (octal 6 0 0)) =
     Some (Fails EACCES)"
    by (simp add: run_defs demo_defs)
  have m: "mode_after readonly_world (filepath_Join demo_dir DevPodSSHPublicKeyFile) (octal 6 4 4) = octal 6 0 0"
    by (simp add: run_defs demo_defs)
  show ?thesis
    using private_write_failure_leaves_public_key [OF h1 h2 h3 h4 h5 h6] h1 h2 h3 h4 h5 h6
    by (simp add: m)
qed

text \<open>
  The claim as it was worded, that no private-key file is left, fails where the write
  fails after the open: with the quota used up the private-key file has been created and
  stays behind, empty, beside the new public-key file.
\<close>

theorem private_write_failure_leaves_empty_key:
  "fs quota_world (filepath_Join demo_dir DevPodSSHPrivateKeyFile) = None \<and>
   fst (prepareDir demo_libs demo_dir quota_world) =
     Some (Wrap (PathError ''write'' [''home'', ''ssh'', ''id_devpod_rsa''] ENOSPC)
             ''write private ssh key'') \<and>
   fs (snd (prepareDir demo_libs demo_dir quota_world)) (filepath_Join demo_dir DevPodSSHPublicKeyFile) =
     Some (File ''ssh-rsa A'' (octal 6 4 4)) \<and>
   fs (snd (prepareDir demo_libs demo_dir quota_world)) (filepath_Join demo_dir DevPodSSHPrivateKeyFile) =
     Some (File [] (octal 6 0 0))"
  by (simp add: run_defs demo_defs)

end
